theory Spec2Isabelle
  imports Complex_Main "HOL-Library.Char_ord" "HOL-Library.List_Lexorder"
begin

section \<open>Expense tracker: data model\<close>

text \<open>
  The repository holds two front ends over one SQLite table \<^verbatim>\<open>expenses\<close>:
  \<^verbatim>\<open>expense_tracker.py\<close> (Tkinter) and \<^verbatim>\<open>expense_tracker_streamlit.py\<close> (Streamlit).
  Both carry their own copy of the statistics, outlier and import code. The definitions
  below follow the Tkinter file under the source's names; the Streamlit copy of a function
  carries the suffix \<open>_st\<close>.

  A row of the table is the tuple \<^verbatim>\<open>(id, amount, category, date, description)\<close>. The
  amount column is \<^verbatim>\<open>REAL\<close>: a Python float. Amounts are modelled as \<^typ>\<open>real\<close>: a
  finite double is the real number it stands for. The reductions over amounts are given
  twice, by their exact formulas and in double precision with the rounding of every
  operation; infinite amounts are outside the model. The one float value that changes
  control flow, NaN, is kept as a value of its own where it can arise.

  The date column is text in the Tkinter file and a pandas timestamp in the Streamlit file
  (after \<^verbatim>\<open>pd.to_datetime\<close>), so the record is polymorphic in the date.
  The field \<^verbatim>\<open>id\<close> is named \<open>exp_id\<close>, since \<open>id\<close> is the identity function of HOL.
\<close>

record 'd expense =
  exp_id :: int
  amount :: real
  category :: string
  date :: 'd
  description :: string

text \<open>A value of the statistics dictionary: a float, NaN, a string or \<^verbatim>\<open>None\<close>.\<close>

datatype kpi = KFloat real | KNaN | KStr string | KNone

text \<open>The dictionary itself, in insertion order; \<open>[]\<close> is the empty dictionary \<^verbatim>\<open>{}\<close>.\<close>

type_synonym stats = "(string \<times> kpi) list"


section \<open>numpy and pandas reductions\<close>

text \<open>
  The numpy reductions the Tkinter file calls, on a one-dimensional array of amounts.
  \<^verbatim>\<open>np.var\<close> and \<^verbatim>\<open>np.std\<close> have \<^verbatim>\<open>ddof=0\<close> by default:
  \<^verbatim>\<open>var = mean(abs(x - x.mean())**2)\<close>, \<^verbatim>\<open>std = sqrt(var)\<close>.
  Every caller returns before these calls when the collection is empty, so the array is
  never empty; on \<open>[]\<close> (where numpy raises or yields nan) the definitions are left
  unspecified or are not meant.
\<close>

definition np_sum :: "real list \<Rightarrow> real" where
  "np_sum a = sum_list a"

definition np_mean :: "real list \<Rightarrow> real" where
  "np_mean a = sum_list a / real (length a)"

definition np_median :: "real list \<Rightarrow> real" where
  "np_median a =
     (let s = sort a; n = length a
      in if even n then (s ! (n div 2 - 1) + s ! (n div 2)) / 2 else s ! (n div 2))"

fun np_min :: "real list \<Rightarrow> real" where
  "np_min (x # xs) = fold min xs x"

fun np_max :: "real list \<Rightarrow> real" where
  "np_max (x # xs) = fold max xs x"

definition np_var :: "real list \<Rightarrow> real" where
  "np_var a = np_mean (map (\<lambda>x. \<bar>x - np_mean a\<bar> ^ 2) a)"

definition np_std :: "real list \<Rightarrow> real" where
  "np_std a = sqrt (np_var a)"

text \<open>
  The pandas reductions the Streamlit file calls on the column \<^verbatim>\<open>df['amount']\<close>.
  \<^verbatim>\<open>Series.var\<close> and \<^verbatim>\<open>Series.std\<close> have \<^verbatim>\<open>ddof=1\<close> by default: the sum of squared
  deviations is divided by \<open>n - 1\<close>, and the result is NaN (here \<open>None\<close>) for fewer than
  two values.
\<close>

definition pd_var :: "real list \<Rightarrow> real option" where
  "pd_var a =
     (if length a < 2 then None
      else Some (sum_list (map (\<lambda>x. (x - np_mean a) ^ 2) a) / (real (length a) - 1)))"

definition pd_std :: "real list \<Rightarrow> real option" where
  "pd_std a = map_option sqrt (pd_var a)"

definition kfloat :: "real option \<Rightarrow> kpi" where
  "kfloat v = (case v of None \<Rightarrow> KNaN | Some x \<Rightarrow> KFloat x)"

text \<open>
  \<^verbatim>\<open>max(it, key=f)\<close>: the first element of the iteration whose key is maximal.
\<close>

fun py_max_key :: "('a \<Rightarrow> nat) \<Rightarrow> 'a list \<Rightarrow> 'a option" where
  "py_max_key f [] = None"
| "py_max_key f (x # xs) = Some (fold (\<lambda>y best. if f best < f y then y else best) xs x)"

text \<open>
  \<^verbatim>\<open>Series.mode()\<close>: the values of maximal count, sorted.
\<close>

definition pd_mode :: "string list \<Rightarrow> string list" where
  "pd_mode cats =
     sort (remdups (filter (\<lambda>c. list_all (\<lambda>d. count_list cats d \<le> count_list cats c) cats) cats))"


section \<open>Statistics engine\<close>

text \<open>
  \<^verbatim>\<open>get_stats(expenses)\<close> of \<^verbatim>\<open>expense_tracker.py\<close>. The most frequent category is
  \<^verbatim>\<open>max(set(cats), key=cats.count)\<close>; the order in which Python iterates \<^verbatim>\<open>set(cats)\<close>
  depends on the string hashes of the run, so it is the parameter \<open>set_iter\<close> (the
  enumeration of the set, given the list), about which nothing is assumed. The enumeration of
  the categories of a non-empty collection is not empty; for an empty one \<^verbatim>\<open>max\<close> has
  nothing to return, which is \<open>None\<close> here.
\<close>

definition get_stats :: "(string list \<Rightarrow> string list) \<Rightarrow> 'd expense list \<Rightarrow> stats" where
  "get_stats set_iter expenses =
     (if expenses = [] then []
      else
        let amounts = map amount expenses;
            cats = map category expenses
        in [(''total'', KFloat (np_sum amounts)),
            (''average'', KFloat (np_mean amounts)),
            (''median'', KFloat (np_median amounts)),
            (''min'', KFloat (np_min amounts)),
            (''max'', KFloat (np_max amounts)),
            (''std'', KFloat (np_std amounts)),
            (''var'', KFloat (np_var amounts)),
            (''most_freq_cat'',
               (case py_max_key (count_list cats) (set_iter cats) of
                  None \<Rightarrow> KNone | Some c \<Rightarrow> KStr c))])"

text \<open>\<^verbatim>\<open>get_stats(df)\<close> of \<^verbatim>\<open>expense_tracker_streamlit.py\<close>.\<close>

definition get_stats_st :: "'d expense list \<Rightarrow> stats" where
  "get_stats_st df =
     (if df = [] then []
      else
        let amounts = map amount df
        in [(''total'', KFloat (sum_list amounts)),
            (''average'', KFloat (np_mean amounts)),
            (''median'', KFloat (np_median amounts)),
            (''min'', KFloat (np_min amounts)),
            (''max'', KFloat (np_max amounts)),
            (''std'', kfloat (pd_std amounts)),
            (''var'', kfloat (pd_var amounts)),
            (''most_freq_cat'',
               (case pd_mode (map category df) of [] \<Rightarrow> KNone | c # _ \<Rightarrow> KStr c))])"


section \<open>Outlier detector\<close>

text \<open>
  \<^verbatim>\<open>detect_outliers(expenses)\<close> of \<^verbatim>\<open>expense_tracker.py\<close>: the loop adds \<^verbatim>\<open>row[0]\<close> to the
  result set for every row with \<^verbatim>\<open>abs(row[1] - mean) > 2 * std\<close>.
\<close>

definition detect_outliers :: "'d expense list \<Rightarrow> int set" where
  "detect_outliers expenses =
     (if expenses = [] then {}
      else
        let amounts = map amount expenses;
            mean = np_mean amounts;
            std = np_std amounts
        in set (map exp_id (filter (\<lambda>row. \<bar>amount row - mean\<bar> > 2 * std) expenses)))"

text \<open>
  \<^verbatim>\<open>detect_outliers(df)\<close> of \<^verbatim>\<open>expense_tracker_streamlit.py\<close>. A comparison with NaN is
  false, so a NaN standard deviation selects no row.
\<close>

definition detect_outliers_st :: "'d expense list \<Rightarrow> int set" where
  "detect_outliers_st df =
     (if df = [] then {}
      else
        let mean = np_mean (map amount df)
        in case pd_std (map amount df) of
             None \<Rightarrow> {}
           | Some std \<Rightarrow>
               set (map exp_id
                 (filter (\<lambda>row. amount row > mean + 2 * std \<or> amount row < mean - 2 * std) df)))"


section \<open>Double precision\<close>

text \<open>
  The amounts are IEEE binary64 numbers, and numpy and pandas round after every operation.
  The definitions above give the reductions by their exact formulas; they serve the
  statements that compare the two front ends on inputs where the difference is far larger
  than any rounding. This section gives the arithmetic of doubles, and the next ones the
  reductions as numpy and pandas compute them, for the statements that depend on rounding.

  A finite double is a real \<open>m * 2 ^ q\<close> with an integer \<open>\<bar>m\<bar> < 2 ^ 53\<close> and
  \<open>- 1074 \<le> q\<close>. An operation returns the double nearest to the exact result, the one
  with even \<open>m\<close> when two are equally near. For a result \<open>x\<close> in the binade
  \<open>2 ^ e \<le> \<bar>x\<bar> < 2 ^ (e + 1)\<close> the doubles are the multiples of \<open>2 ^ (e - 52)\<close>, and
  below \<open>2 ^ (- 1022)\<close> (the subnormal range) the multiples of \<open>2 ^ (- 1074)\<close>.
  Results of magnitude \<open>2 ^ 1024\<close> and more, where a double is infinite, and NaN are not
  modelled: the statements below stay within the finite range.
\<close>

definition pow2 :: "int \<Rightarrow> real" where
  "pow2 q = (if 0 \<le> q then 2 ^ nat q else 1 / 2 ^ nat (- q))"

text \<open>Rounding to the nearest integer, a tie to the even one.\<close>

definition rne :: "real \<Rightarrow> int" where
  "rne x =
     (let f = \<lfloor>x\<rfloor>; r = x - of_int f
      in if r < 1 / 2 then f else if 1 / 2 < r then f + 1 else if even f then f else f + 1)"

text \<open>The exponent of the spacing of the doubles around \<open>x\<close>, and the double nearest to \<open>x\<close>.\<close>

definition quantum :: "real \<Rightarrow> int" where
  "quantum x = max (\<lfloor>log 2 \<bar>x\<bar>\<rfloor> - 52) (- 1074)"

definition rnd :: "real \<Rightarrow> real" where
  "rnd x = (if x = 0 then 0 else of_int (rne (x / pow2 (quantum x))) * pow2 (quantum x))"

definition fadd :: "real \<Rightarrow> real \<Rightarrow> real" where
  "fadd x y = rnd (x + y)"

definition fsub :: "real \<Rightarrow> real \<Rightarrow> real" where
  "fsub x y = rnd (x - y)"

definition fmul :: "real \<Rightarrow> real \<Rightarrow> real" where
  "fmul x y = rnd (x * y)"

definition fdiv :: "real \<Rightarrow> real \<Rightarrow> real" where
  "fdiv x y = rnd (x / y)"

definition fsqrt :: "real \<Rightarrow> real" where
  "fsqrt x = rnd (sqrt x)"


section \<open>numpy and pandas reductions in double precision\<close>

text \<open>
  \<^verbatim>\<open>np.sum\<close> of a contiguous array of doubles adds the result of numpy's pairwise summation
  to the initial value 0. The pairwise summation adds fewer than 8 numbers from left to
  right, starting from 0. Up to 128 numbers it adds in eight lanes (lane \<open>j\<close> takes the
  numbers at the positions \<open>j\<close>, \<open>j + 8\<close>, \<open>j + 16\<close>, ... of the full blocks of eight), adds
  the lanes as \<^verbatim>\<open>((r0 + r1) + (r2 + r3)) + ((r4 + r5) + (r6 + r7))\<close> and then the numbers
  left over, one by one. More than 128 numbers are split at half the length, rounded down
  to a multiple of 8, and the sums of the two parts are added.
\<close>

definition seq_sum :: "real \<Rightarrow> real list \<Rightarrow> real" where
  "seq_sum res a = fold (\<lambda>x s. fadd s x) a res"

fun add8 :: "real list \<Rightarrow> real list \<Rightarrow> real list \<times> real list" where
  "add8 r (x0 # x1 # x2 # x3 # x4 # x5 # x6 # x7 # xs) =
     add8 (map2 fadd r [x0, x1, x2, x3, x4, x5, x6, x7]) xs"
| "add8 r xs = (r, xs)"

definition block_sum :: "real list \<Rightarrow> real" where
  "block_sum a =
     (case add8 (take 8 a) (drop 8 a) of
        (r, rest) \<Rightarrow>
          seq_sum (fadd (fadd (fadd (r ! 0) (r ! 1)) (fadd (r ! 2) (r ! 3)))
                        (fadd (fadd (r ! 4) (r ! 5)) (fadd (r ! 6) (r ! 7)))) rest)"

function pairwise_sum :: "real list \<Rightarrow> real" where
  "pairwise_sum a =
     (let n = length a
      in if n < 8 then seq_sum 0 a
         else if n \<le> 128 then block_sum a
         else let n2 = n div 2 - (n div 2) mod 8
              in fadd (pairwise_sum (take n2 a)) (pairwise_sum (drop n2 a)))"
  by pat_completeness auto
termination
  by (relation "measure length") auto

declare pairwise_sum.simps [simp del]

definition np_sum64 :: "real list \<Rightarrow> real" where
  "np_sum64 a = fadd 0 (pairwise_sum a)"

text \<open>
  \<^verbatim>\<open>np.mean\<close> divides the sum by the number of elements. \<^verbatim>\<open>np.var\<close> subtracts the mean from
  every element, multiplies each difference by itself, and divides the sum of the products
  by the number of elements; \<^verbatim>\<open>np.std\<close> is its square root. \<^verbatim>\<open>np.median\<close> is the mean of
  the one or two middle elements of the sorted array.
\<close>

definition np_mean64 :: "real list \<Rightarrow> real" where
  "np_mean64 a = fdiv (np_sum64 a) (real (length a))"

definition np_var64 :: "real list \<Rightarrow> real" where
  "np_var64 a =
     (let arrmean = np_mean64 a;
          x = map (\<lambda>v. fsub v arrmean) a
      in fdiv (np_sum64 (map (\<lambda>d. fmul d d) x)) (real (length a)))"

definition np_std64 :: "real list \<Rightarrow> real" where
  "np_std64 a = fsqrt (np_var64 a)"

definition np_median64 :: "real list \<Rightarrow> real" where
  "np_median64 a =
     (let s = sort a; n = length a
      in if even n then np_mean64 [s ! (n div 2 - 1), s ! (n div 2)] else np_mean64 [s ! (n div 2)])"



text \<open>
  The sum of one group of \<^verbatim>\<open>groupby(...).sum()\<close>: pandas adds the values of the group in
  the order of the rows with Kahan's compensated summation.
\<close>

definition kahan_step :: "real \<times> real \<Rightarrow> real \<Rightarrow> real \<times> real" where
  "kahan_step s val =
     (case s of (sumx, compensation) \<Rightarrow>
        let y = fsub val compensation;
            t = fadd sumx y
        in (t, fsub (fsub t sumx) y))"

definition group_sum :: "real list \<Rightarrow> real" where
  "group_sum vals = fst (fold (\<lambda>val s. kahan_step s val) vals (0, 0))"


section \<open>Statistics engine and outlier detector in double precision\<close>

text \<open>
  \<^verbatim>\<open>get_stats\<close> and \<^verbatim>\<open>detect_outliers\<close> of \<^verbatim>\<open>expense_tracker.py\<close>, and \<^verbatim>\<open>detect_outliers\<close> of
  \<^verbatim>\<open>expense_tracker_streamlit.py\<close>, with the reductions of the previous section.
\<close>

definition get_stats64 :: "(string list \<Rightarrow> string list) \<Rightarrow> 'd expense list \<Rightarrow> stats" where
  "get_stats64 set_iter expenses =
     (if expenses = [] then []
      else
        let amounts = map amount expenses;
            cats = map category expenses
        in [(''total'', KFloat (np_sum64 amounts)),
            (''average'', KFloat (np_mean64 amounts)),
            (''median'', KFloat (np_median64 amounts)),
            (''min'', KFloat (np_min amounts)),
            (''max'', KFloat (np_max amounts)),
            (''std'', KFloat (np_std64 amounts)),
            (''var'', KFloat (np_var64 amounts)),
            (''most_freq_cat'',
               (case py_max_key (count_list cats) (set_iter cats) of
                  None \<Rightarrow> KNone | Some c \<Rightarrow> KStr c))])"

definition detect_outliers64 :: "'d expense list \<Rightarrow> int set" where
  "detect_outliers64 expenses =
     (if expenses = [] then {}
      else
        let amounts = map amount expenses;
            mean = np_mean64 amounts;
            std = np_std64 amounts
        in set (map exp_id
             (filter (\<lambda>row. \<bar>fsub (amount row) mean\<bar> > fmul 2 std) expenses)))"






section \<open>Sample data\<close>

text \<open>A row with the given id and amount, used by the concrete evaluations below.\<close>

definition food_row :: "int \<Rightarrow> real \<Rightarrow> string expense" where
  "food_row i a =
     \<lparr>exp_id = i, amount = a, category = ''Food'', date = ''2024-01-01'', description = ''''\<rparr>"



section \<open>Expense store\<close>

text \<open>
  The table \<^verbatim>\<open>expenses\<close>: its rows in rowid order, and the counter SQLite keeps for an
  \<^verbatim>\<open>AUTOINCREMENT\<close> key (the largest rowid ever assigned). Every function of the source
  opens its own connection, runs one statement and commits.
\<close>

record store =
  rows :: "string expense list"
  seq :: int

text \<open>
  A Python float handed to SQLite. SQLite binds a NaN as \<^verbatim>\<open>NULL\<close>, which the column
  constraint \<^verbatim>\<open>amount REAL NOT NULL\<close> refuses.
\<close>

datatype pyfloat = Fl real | NaN

datatype error =
    IntegrityError
  | OperationalError
  | OverflowError
  | ValueError string
  | KeyError string
  | ReadError string
  | DateParseError
  | IndexError
  | TypeError string
  | RegexError string

text \<open>
  A rowid is a signed integer of 64 bits. Python's \<^verbatim>\<open>sqlite3\<close> raises \<^verbatim>\<open>OverflowError\<close>
  when it is to bind an integer outside this range, before the statement runs.
\<close>

definition int64 :: "int \<Rightarrow> bool" where
  "int64 i = (- (2 ^ 63) \<le> i \<and> i \<le> 2 ^ 63 - 1)"

text \<open>
  The rowid of the next inserted row. Once the largest rowid \<open>2 ^ 63 - 1\<close> has been
  assigned, an insertion fails with \<^verbatim>\<open>database or disk is full\<close>
  (\<^verbatim>\<open>sqlite3.OperationalError\<close>); SQLite allocates the rowid before it checks the
  constraints of the columns.
\<close>

definition new_rowid :: "store \<Rightarrow> int" where
  "new_rowid st = max (seq st) (fold max (map exp_id (rows st)) 0) + 1"

definition add_expense ::
    "pyfloat \<Rightarrow> string \<Rightarrow> string \<Rightarrow> string \<Rightarrow> store \<Rightarrow> (error + unit) \<times> store" where
  "add_expense amt cat d descr st =
     (if \<not> int64 (new_rowid st) then (Inl OperationalError, st)
      else case amt of
        NaN \<Rightarrow> (Inl IntegrityError, st)
      | Fl a \<Rightarrow>
          (Inr (),
           \<lparr>rows = rows st @
              [\<lparr>exp_id = new_rowid st, amount = a, category = cat, date = d, description = descr\<rparr>],
            seq = new_rowid st\<rparr>))"

text \<open>
  \<^verbatim>\<open>UPDATE expenses SET ... WHERE id=?\<close> and \<^verbatim>\<open>DELETE FROM expenses WHERE id=?\<close>. Both
  functions return \<^verbatim>\<open>None\<close>; the number of rows the statement touched is not read. A
  statement that matches no row changes nothing and checks no constraint. The id is bound
  as a parameter of the statement, so an id that is no 64-bit integer raises
  \<^verbatim>\<open>OverflowError\<close> and the statement does not run.
\<close>

definition update_expense ::
    "int \<Rightarrow> pyfloat \<Rightarrow> string \<Rightarrow> string \<Rightarrow> string \<Rightarrow> store \<Rightarrow> (error + unit) \<times> store" where
  "update_expense expense_id amt cat d descr st =
     (if \<not> int64 expense_id then (Inl OverflowError, st)
      else if \<not> list_ex (\<lambda>r. exp_id r = expense_id) (rows st) then (Inr (), st)
      else case amt of
        NaN \<Rightarrow> (Inl IntegrityError, st)
      | Fl a \<Rightarrow>
          (Inr (),
           st\<lparr>rows := map (\<lambda>r. if exp_id r = expense_id
                                then r\<lparr>amount := a, category := cat, date := d, description := descr\<rparr>
                                else r) (rows st)\<rparr>))"

definition delete_expense :: "int \<Rightarrow> store \<Rightarrow> (error + unit) \<times> store" where
  "delete_expense expense_id st =
     (if \<not> int64 expense_id then (Inl OverflowError, st)
      else (Inr (), st\<lparr>rows := filter (\<lambda>r. exp_id r \<noteq> expense_id) (rows st)\<rparr>))"


section \<open>Import\<close>

text \<open>
  \<^verbatim>\<open>import_data\<close> reads four columns of each row of the data frame: it takes \<^verbatim>\<open>float()\<close> of
  the cell \<^verbatim>\<open>row['Amount']\<close> and \<^verbatim>\<open>str()\<close> of the cells \<^verbatim>\<open>row['Category']\<close>, \<^verbatim>\<open>row['Date']\<close>
  and \<^verbatim>\<open>row.get('Description', '')\<close>. A cell is modelled by what these two functions see of
  it: the amount cell is a number, a string or NaN; a cell of the other columns is
  its \<^verbatim>\<open>str()\<close> image, or NaN, whose image is \<^verbatim>\<open>'nan'\<close>. A column the frame does not have is
  \<open>None\<close>. The import loop of the Streamlit file makes the same four reads in the same order.
  (The function \<^verbatim>\<open>import_data\<close> itself follows the filter engine below, which it calls.)
\<close>

datatype acell = ANum real | AStr string | ANaN

datatype tcell = TStr string | TNaN

record frame_row =
  Amount :: "acell option"
  Category :: "tcell option"
  Date :: "tcell option"
  Description :: "tcell option"

text \<open>
  \<^verbatim>\<open>float(x)\<close>. On a string it is the parameter \<open>pf\<close> (\<open>None\<close>: the string is no number
  and \<^verbatim>\<open>float\<close> raises \<^verbatim>\<open>ValueError\<close>).
\<close>

definition py_float :: "(string \<Rightarrow> pyfloat option) \<Rightarrow> acell \<Rightarrow> error + pyfloat" where
  "py_float pf c =
     (case c of
        ANum v \<Rightarrow> Inr (Fl v)
      | ANaN \<Rightarrow> Inr NaN
      | AStr s \<Rightarrow> (case pf s of None \<Rightarrow> Inl (ValueError s) | Some x \<Rightarrow> Inr x))"

definition py_str :: "tcell \<Rightarrow> string" where
  "py_str c = (case c of TStr s \<Rightarrow> s | TNaN \<Rightarrow> ''nan'')"

text \<open>The four arguments of \<^verbatim>\<open>add_expense\<close> for one row, or the exception raised on the way.\<close>

definition row_args ::
    "(string \<Rightarrow> pyfloat option) \<Rightarrow> frame_row \<Rightarrow> error + (pyfloat \<times> string \<times> string \<times> string)" where
  "row_args pf r =
     (case Amount r of
        None \<Rightarrow> Inl (KeyError ''Amount'')
      | Some ac \<Rightarrow>
          (case py_float pf ac of
             Inl e \<Rightarrow> Inl e
           | Inr a \<Rightarrow>
               (case Category r of
                  None \<Rightarrow> Inl (KeyError ''Category'')
                | Some c \<Rightarrow>
                    (case Date r of
                       None \<Rightarrow> Inl (KeyError ''Date'')
                     | Some d \<Rightarrow>
                         Inr (a, py_str c, py_str d,
                              (case Description r of None \<Rightarrow> [] | Some x \<Rightarrow> py_str x))))))"

text \<open>
  The loop \<^verbatim>\<open>for _, row in df.iterrows()\<close>: each row is inserted, and committed, by its own
  call of \<^verbatim>\<open>add_expense\<close>; an exception leaves the loop.
\<close>

fun import_rows ::
    "(string \<Rightarrow> pyfloat option) \<Rightarrow> frame_row list \<Rightarrow> store \<Rightarrow> (error + unit) \<times> store" where
  "import_rows pf [] st = (Inr (), st)"
| "import_rows pf (r # rs) st =
     (case row_args pf r of
        Inl e \<Rightarrow> (Inl e, st)
      | Inr (a, c, d, descr) \<Rightarrow>
          (case add_expense a c d descr st of
             (Inl e, st') \<Rightarrow> (Inl e, st')
           | (Inr u, st') \<Rightarrow> import_rows pf rs st'))"

text \<open>
  A row is imported when its four arguments are there and the amount is no NaN. The fields
  a good row contributes:
\<close>

definition row_fields ::
    "(string \<Rightarrow> pyfloat option) \<Rightarrow> frame_row \<Rightarrow> (real \<times> string \<times> string \<times> string) option" where
  "row_fields pf r =
     (case row_args pf r of
        Inr (Fl a, c, d, descr) \<Rightarrow> Some (a, c, d, descr)
      | _ \<Rightarrow> None)"

definition row_ok :: "(string \<Rightarrow> pyfloat option) \<Rightarrow> frame_row \<Rightarrow> bool" where
  "row_ok pf r = (row_fields pf r \<noteq> None)"

definition expense_fields :: "string expense \<Rightarrow> real \<times> string \<times> string \<times> string" where
  "expense_fields e = (amount e, category e, date e, description e)"

text \<open>
  An instance of \<open>pf\<close> for the concrete evaluations: \<^verbatim>\<open>float\<close> on the decimal numerals
  \<^verbatim>\<open>[+-]digits[.digits]\<close>. Python's \<^verbatim>\<open>float\<close> accepts more strings (exponents, \<^verbatim>\<open>inf\<close>,
  \<^verbatim>\<open>nan\<close>, surrounding blanks); the evaluations apply it to \<^verbatim>\<open>'10'\<close> and \<^verbatim>\<open>'abc'\<close> only.
\<close>

definition digit_of :: "char \<Rightarrow> nat option" where
  "digit_of c =
     (if c \<in> set ''0123456789''
      then Some (length (takeWhile (\<lambda>d. d \<noteq> c) ''0123456789''))
      else None)"

fun digits_val :: "nat \<Rightarrow> string \<Rightarrow> nat option" where
  "digits_val acc [] = Some acc"
| "digits_val acc (c # cs) =
     (case digit_of c of None \<Rightarrow> None | Some d \<Rightarrow> digits_val (10 * acc + d) cs)"

definition dec_float :: "string \<Rightarrow> pyfloat option" where
  "dec_float s =
     (let body = (case s of [] \<Rightarrow> [] | c # r \<Rightarrow> if c = CHR ''-'' \<or> c = CHR ''+'' then r else s);
          sign = (case s of [] \<Rightarrow> 1 | c # r \<Rightarrow> if c = CHR ''-'' then - 1 else 1);
          ip = takeWhile (\<lambda>c. c \<noteq> CHR ''.'') body;
          rest = dropWhile (\<lambda>c. c \<noteq> CHR ''.'') body
      in if ip = [] then None
         else case digits_val 0 ip of
           None \<Rightarrow> None
         | Some i \<Rightarrow>
             (case rest of
                [] \<Rightarrow> Some (Fl (sign * real i))
              | dot # fp \<Rightarrow>
                  (case digits_val 0 fp of
                     None \<Rightarrow> None
                   | Some f \<Rightarrow> Some (Fl (sign * (real i + real f / 10 ^ length fp))))))"


section \<open>Export and reading the exported file back\<close>

text \<open>
  \<^verbatim>\<open>export_csv\<close> writes the filtered collection with \<^verbatim>\<open>DataFrame.to_csv\<close> under the header
  \<^verbatim>\<open>ID,Amount,Category,Date,Description\<close>; the store is not touched. A line of the file is
  modelled by its five fields: the numbers whose decimal numerals stand in the first two
  fields, and the text of the other three (an empty string is written as an empty field).
  The quoting of separators and line breaks is not modelled.
\<close>

type_synonym csv_line = "int \<times> real \<times> string \<times> string \<times> string"

definition export_csv :: "string expense list \<Rightarrow> csv_line list" where
  "export_csv filtered_expenses =
     map (\<lambda>e. (exp_id e, amount e, category e, date e, description e)) filtered_expenses"

text \<open>
  \<^verbatim>\<open>pd.read_csv\<close> on such a file. The column of amounts holds numerals and is read as
  floats; the amount is taken to come back as the number that was written (the numeral
  \<^verbatim>\<open>to_csv\<close> writes determines the double, but the default parser of pandas is not
  correctly rounding on every numeral and may differ in the last bit, which the definition
  does not follow). In the three text columns an empty field is read as NaN. What pandas makes of the
  other fields of a text column depends on the whole column (a marker of a missing value
  such as \<^verbatim>\<open>NA\<close> becomes NaN, a column of numerals becomes numbers, anything else stays the
  text): it is the parameter \<open>reread\<close>, which gives the cell for the column and the index.
\<close>

definition text_cell :: "(string list \<Rightarrow> nat \<Rightarrow> tcell) \<Rightarrow> string list \<Rightarrow> nat \<Rightarrow> tcell" where
  "text_cell reread col i = (if col ! i = [] then TNaN else reread col i)"

definition read_csv :: "(string list \<Rightarrow> nat \<Rightarrow> tcell) \<Rightarrow> csv_line list \<Rightarrow> frame_row list" where
  "read_csv reread file =
     map (\<lambda>i. case file ! i of (n, a, c, d, descr) \<Rightarrow>
            \<lparr>Amount = Some (ANum a),
             Category = Some (text_cell reread (map (\<lambda>(n, a, c, d, descr). c) file) i),
             Date = Some (text_cell reread (map (\<lambda>(n, a, c, d, descr). d) file) i),
             Description = Some (text_cell reread (map (\<lambda>(n, a, c, d, descr). descr) file) i)\<rparr>)
         [0 ..< length file]"

text \<open>The reading under which every non-empty field stays the text that was written.\<close>

definition as_written :: "string list \<Rightarrow> nat \<Rightarrow> tcell" where
  "as_written col i = TStr (col ! i)"

definition nan_if_empty :: "string \<Rightarrow> string" where
  "nan_if_empty s = (if s = [] then ''nan'' else s)"


definition empty_store :: store where
  "empty_store = \<lparr>rows = [], seq = 0\<rparr>"

text \<open>The store after one insertion into the empty table.\<close>

definition one_store :: store where
  "one_store = \<lparr>rows = [food_row 1 10], seq = 1\<rparr>"

text \<open>A row of an imported frame with the given amount cell.\<close>

definition lunch_row :: "acell \<Rightarrow> frame_row" where
  "lunch_row ac =
     \<lparr>Amount = Some ac, Category = Some (TStr ''Food''), Date = Some (TStr ''2024-01-01''),
      Description = Some (TStr ''lunch'')\<rparr>"


section \<open>Filter engine\<close>

text \<open>
  The six filter arguments of \<^verbatim>\<open>get_filtered_expenses\<close> and \<^verbatim>\<open>filter_expenses\<close>, each
  \<^verbatim>\<open>None\<close> or a value. The argument \<^verbatim>\<open>category\<close> is named \<open>category_c\<close>, since \<open>category\<close>
  is the field of a row.
\<close>

record criteria =
  start_date :: "string option"
  end_date :: "string option"
  category_c :: "string option"
  min_amount :: "real option"
  max_amount :: "real option"
  desc_keyword :: "string option"

text \<open>Python's truth value of an argument that is \<^verbatim>\<open>None\<close> or a string.\<close>

definition truthy :: "string option \<Rightarrow> bool" where
  "truthy v = (case v of None \<Rightarrow> False | Some s \<Rightarrow> s \<noteq> [])"

text \<open>
  SQLite's \<^verbatim>\<open>LIKE\<close>, without an \<^verbatim>\<open>ESCAPE\<close> clause: \<^verbatim>\<open>%\<close> in the pattern matches any run of
  characters, \<^verbatim>\<open>_\<close> matches any one character, and every other character matches itself,
  the ASCII letters without regard to case.
\<close>

definition ascii_lower :: "char \<Rightarrow> char" where
  "ascii_lower c =
     (case map_of (zip ''ABCDEFGHIJKLMNOPQRSTUVWXYZ'' ''abcdefghijklmnopqrstuvwxyz'') c of
        None \<Rightarrow> c
      | Some l \<Rightarrow> l)"

primrec any_suffix :: "('a list \<Rightarrow> bool) \<Rightarrow> 'a list \<Rightarrow> bool" where
  "any_suffix P [] = P []"
| "any_suffix P (x # xs) = (P (x # xs) \<or> any_suffix P xs)"

primrec like :: "string \<Rightarrow> string \<Rightarrow> bool" where
  "like [] = (\<lambda>s. s = [])"
| "like (p # ps) =
     (if p = CHR ''%'' then any_suffix (like ps)
      else (\<lambda>s. case s of
                  [] \<Rightarrow> False
                | c # cs \<Rightarrow> (p = CHR ''_'' \<or> ascii_lower p = ascii_lower c) \<and> like ps cs))"

text \<open>
  The conditions that \<^verbatim>\<open>get_filtered_expenses\<close> appends to
  \<^verbatim>\<open>SELECT ... FROM expenses WHERE 1=1\<close>, each with its bound parameter. SQLite compares
  the text of the date column byte by byte, which is the lexicographic order of the strings.
\<close>

datatype cond =
    DateGe string
  | DateLe string
  | CategoryEq string
  | AmountGe real
  | AmountLe real
  | DescriptionLike string

fun holds :: "cond \<Rightarrow> string expense \<Rightarrow> bool" where
  "holds (DateGe s) r = (s \<le> date r)"
| "holds (DateLe s) r = (date r \<le> s)"
| "holds (CategoryEq c) r = (category r = c)"
| "holds (AmountGe a) r = (a \<le> amount r)"
| "holds (AmountLe a) r = (amount r \<le> a)"
| "holds (DescriptionLike p) r = like p (description r)"

definition query :: "criteria \<Rightarrow> cond list" where
  "query c =
     (if truthy (start_date c) then [DateGe (the (start_date c))] else [])
     @ (if truthy (end_date c) then [DateLe (the (end_date c))] else [])
     @ (if truthy (category_c c) \<and> category_c c \<noteq> Some ''All''
        then [CategoryEq (the (category_c c))] else [])
     @ (case min_amount c of None \<Rightarrow> [] | Some a \<Rightarrow> [AmountGe a])
     @ (case max_amount c of None \<Rightarrow> [] | Some a \<Rightarrow> [AmountLe a])
     @ (if truthy (desc_keyword c)
        then [DescriptionLike (''%'' @ the (desc_keyword c) @ ''%'')] else [])"

definition get_filtered_expenses :: "criteria \<Rightarrow> store \<Rightarrow> string expense list" where
  "get_filtered_expenses c st = filter (\<lambda>r. list_all (\<lambda>q. holds q r) (query c)) (rows st)"

text \<open>
  What the specification asks of the description: it contains the keyword as a substring,
  without regard to the case of letters.
\<close>

primrec is_prefix :: "'a list \<Rightarrow> 'a list \<Rightarrow> bool" where
  "is_prefix [] ys = True"
| "is_prefix (x # xs) ys = (case ys of [] \<Rightarrow> False | y # ys' \<Rightarrow> x = y \<and> is_prefix xs ys')"

definition contains_ci :: "string \<Rightarrow> string \<Rightarrow> bool" where
  "contains_ci keyword s =
     any_suffix (is_prefix (map ascii_lower keyword)) (map ascii_lower s)"

definition no_criteria :: criteria where
  "no_criteria =
     \<lparr>start_date = None, end_date = None, category_c = None, min_amount = None,
      max_amount = None, desc_keyword = None\<rparr>"


section \<open>Refreshing the table, and the import\<close>

text \<open>
  The text of the six filter boxes of the Tkinter window, \<^verbatim>\<open>self.filter_vars\<close>.
\<close>

record filter_vars =
  start_date_var :: string
  end_date_var :: string
  category_var :: string
  min_amount_var :: string
  max_amount_var :: string
  desc_keyword_var :: string

text \<open>
  \<^verbatim>\<open>x or None\<close> on the text of a box, and \<^verbatim>\<open>float(x) if x else None\<close> on the text of
  an amount box: \<^verbatim>\<open>None\<close> for the empty text, and \<^verbatim>\<open>ValueError\<close> for a text that is no
  number.
\<close>

definition or_none :: "string \<Rightarrow> string option" where
  "or_none x = (if x = [] then None else Some x)"

definition float_var :: "(string \<Rightarrow> pyfloat option) \<Rightarrow> string \<Rightarrow> error + pyfloat option" where
  "float_var pf x =
     (if x = [] then Inr None
      else case pf x of None \<Rightarrow> Inl (ValueError x) | Some v \<Rightarrow> Inr (Some v))"

text \<open>
  \<^verbatim>\<open>refresh_expenses\<close>: the new value of \<^verbatim>\<open>self.filtered_expenses\<close>, or the exception
  raised. The two amounts are converted, the lower one first, before the query runs. A NaN
  bound is bound as \<^verbatim>\<open>NULL\<close>, and a comparison with \<^verbatim>\<open>NULL\<close> selects no row. The
  redrawing of the table from the result is not modelled.
\<close>

definition refresh_expenses ::
    "(string \<Rightarrow> pyfloat option) \<Rightarrow> filter_vars \<Rightarrow> store \<Rightarrow> error + string expense list" where
  "refresh_expenses pf fv st =
     (case float_var pf (min_amount_var fv) of
        Inl e \<Rightarrow> Inl e
      | Inr lo \<Rightarrow>
          (case float_var pf (max_amount_var fv) of
             Inl e \<Rightarrow> Inl e
           | Inr hi \<Rightarrow>
               Inr (if lo = Some NaN \<or> hi = Some NaN then []
                    else get_filtered_expenses
                      \<lparr>start_date = or_none (start_date_var fv),
                       end_date = or_none (end_date_var fv),
                       category_c = or_none (category_var fv),
                       min_amount = (case lo of Some (Fl a) \<Rightarrow> Some a | _ \<Rightarrow> None),
                       max_amount = (case hi of Some (Fl a) \<Rightarrow> Some a | _ \<Rightarrow> None),
                       desc_keyword = or_none (desc_keyword_var fv)\<rparr> st)))"

text \<open>
  What the user is shown at the end of an import: nothing when the file dialog was
  cancelled, the message \<^verbatim>\<open>Imported n expenses\<close>, or the message \<^verbatim>\<open>Failed to import\<close> with
  the exception.
\<close>

datatype outcome = Cancelled | Imported nat | ImportFailed error

text \<open>
  \<^verbatim>\<open>import_data\<close>. The argument \<open>file\<close> is \<open>None\<close> when no file was chosen, and otherwise
  what \<^verbatim>\<open>pd.read_csv\<close> or \<^verbatim>\<open>pd.read_excel\<close> makes of the chosen file: an exception or a
  data frame. After the loop, and still inside the \<^verbatim>\<open>try\<close>, the window is refreshed
  (\<^verbatim>\<open>refresh_filters\<close>, \<^verbatim>\<open>refresh_expenses\<close>, \<^verbatim>\<open>refresh_dashboard\<close>) before the message
  \<^verbatim>\<open>Imported\<close> is shown; of these, \<^verbatim>\<open>refresh_expenses\<close> raises when the text of an amount
  box is no number, and the handler then shows \<^verbatim>\<open>Failed to import\<close> although every row
  was inserted.
\<close>

definition import_data ::
    "(string \<Rightarrow> pyfloat option) \<Rightarrow> filter_vars \<Rightarrow> (error + frame_row list) option \<Rightarrow> store
      \<Rightarrow> outcome \<times> store" where
  "import_data pf fv file st =
     (case file of
        None \<Rightarrow> (Cancelled, st)
      | Some (Inl e) \<Rightarrow> (ImportFailed e, st)
      | Some (Inr df) \<Rightarrow>
          (case import_rows pf df st of
             (Inl e, st') \<Rightarrow> (ImportFailed e, st')
           | (Inr u, st') \<Rightarrow>
               (case refresh_expenses pf fv st' of
                  Inl e \<Rightarrow> (ImportFailed e, st')
                | Inr expenses \<Rightarrow> (Imported (length df), st'))))"

text \<open>The window with every filter box empty.\<close>

definition no_filters :: filter_vars where
  "no_filters =
     \<lparr>start_date_var = [], end_date_var = [], category_var = [], min_amount_var = [],
      max_amount_var = [], desc_keyword_var = []\<rparr>"


section \<open>Dates\<close>

text \<open>
  A pandas timestamp of a day is the triple of year, month and day; the missing timestamp
  \<^verbatim>\<open>NaT\<close> is \<open>None\<close>. The number of days from 1970-01-01 to the day orders the timestamps.
\<close>

type_synonym timestamp = "nat \<times> nat \<times> nat"

definition ordinal :: "timestamp \<Rightarrow> int" where
  "ordinal t =
     (case t of (y, m, d) \<Rightarrow>
        let y' = (if m \<le> 2 then int y - 1 else int y);
            era = y' div 400;
            yoe = y' - era * 400;
            mp = (if m \<le> 2 then int m + 9 else int m - 3);
            doy = (153 * mp + 2) div 5 + int d - 1;
            doe = yoe * 365 + yoe div 4 - yoe div 100 + doy
        in era * 146097 + doe - 719468)"

text \<open>
  \<^verbatim>\<open>Series.dt.to_period(freq)\<close>: the period of the given frequency that holds the day, as
  the number pandas orders periods by (the ordinal of the period: 0 for the month, quarter
  and year of 1970-01-01, and 1 for its week). Weeks run from Monday to Sunday
  (\<^verbatim>\<open>W-SUN\<close>); 1970-01-01 was a Thursday. Quarters and years are those of the calendar.
\<close>

definition to_period :: "string \<Rightarrow> timestamp \<Rightarrow> int" where
  "to_period freq t =
     (case t of (y, m, d) \<Rightarrow>
        if freq = ''W'' then (ordinal t + 3) div 7 + 1
        else if freq = ''M'' then (int y - 1970) * 12 + (int m - 1)
        else if freq = ''Q'' then (int y - 1970) * 4 + (int m - 1) div 3
        else int y - 1970)"

text \<open>
  How pandas reads the text of a date is a parameter of the functions below. The instances
  for the concrete evaluations read the form \<^verbatim>\<open>YYYY-MM-DD\<close>, which both front ends write,
  for a day of the calendar in the years 1678 to 2261, which pandas' timestamps cover.
\<close>

definition is_leap :: "nat \<Rightarrow> bool" where
  "is_leap y = (y mod 4 = 0 \<and> (y mod 100 \<noteq> 0 \<or> y mod 400 = 0))"

definition days_in_month :: "nat \<Rightarrow> nat \<Rightarrow> nat" where
  "days_in_month y m =
     (if m = 2 then (if is_leap y then 29 else 28)
      else if m = 4 \<or> m = 6 \<or> m = 9 \<or> m = 11 then 30 else 31)"

definition iso_date :: "string \<Rightarrow> timestamp option" where
  "iso_date s =
     (if length s = 10 \<and> s ! 4 = CHR ''-'' \<and> s ! 7 = CHR ''-'' then
        (case (digits_val 0 (take 4 s), digits_val 0 (take 2 (drop 5 s)),
               digits_val 0 (drop 8 s)) of
           (Some y, Some m, Some d) \<Rightarrow>
             if 1678 \<le> y \<and> y \<le> 2261 \<and> 1 \<le> m \<and> m \<le> 12 \<and> 1 \<le> d \<and> d \<le> days_in_month y m
             then Some (y, m, d) else None
         | _ \<Rightarrow> None)
      else None)"




section \<open>Filter engine of the Streamlit file\<close>

text \<open>
  \<^verbatim>\<open>filter_expenses(df, ...)\<close> works on the data frame whose \<^verbatim>\<open>date\<close> column was converted
  with \<^verbatim>\<open>pd.to_datetime\<close>, so a date is a timestamp or \<^verbatim>\<open>NaT\<close>, and a comparison with
  \<^verbatim>\<open>NaT\<close> is false. Comparing the column with the string \<^verbatim>\<open>start_date\<close> makes pandas read
  the string as a timestamp: \<open>ts\<close> is that reading, \<open>None\<close> when pandas cannot read the
  string and the comparison raises. The keyword is handed to
  \<^verbatim>\<open>Series.str.contains(desc_keyword, case=False, na=False)\<close>, which takes it as a regular
  expression: \<open>rx\<close> is Python's \<^verbatim>\<open>re\<close> engine, giving for a pattern the case-insensitive
  search it compiles to, or \<open>None\<close> when the pattern does not compile. Nothing is assumed
  about \<open>ts\<close> and \<open>rx\<close>.
\<close>

type_synonym regex = "string \<Rightarrow> (string \<Rightarrow> bool) option"

definition then_do :: "error + 'a \<Rightarrow> ('a \<Rightarrow> error + 'b) \<Rightarrow> error + 'b" where
  "then_do r f = (case r of Inl e \<Rightarrow> Inl e | Inr x \<Rightarrow> f x)"

definition date_step ::
    "(string \<Rightarrow> timestamp option) \<Rightarrow> (int \<Rightarrow> int \<Rightarrow> bool) \<Rightarrow> string option
      \<Rightarrow> timestamp option expense list \<Rightarrow> error + timestamp option expense list" where
  "date_step ts cmp bound df =
     (if truthy bound then
        (case ts (the bound) of
           None \<Rightarrow> Inl (TypeError (the bound))
         | Some t \<Rightarrow>
             Inr (filter (\<lambda>r. case date r of
                                None \<Rightarrow> False
                              | Some d \<Rightarrow> cmp (ordinal d) (ordinal t)) df))
      else Inr df)"

definition keyword_step ::
    "regex \<Rightarrow> string option \<Rightarrow> timestamp option expense list
      \<Rightarrow> error + timestamp option expense list" where
  "keyword_step rx keyword df =
     (if truthy keyword then
        (case rx (the keyword) of
           None \<Rightarrow> Inl (RegexError (the keyword))
         | Some search \<Rightarrow> Inr (filter (\<lambda>r. search (description r)) df))
      else Inr df)"

definition filter_expenses ::
    "regex \<Rightarrow> (string \<Rightarrow> timestamp option) \<Rightarrow> criteria \<Rightarrow> timestamp option expense list
      \<Rightarrow> error + timestamp option expense list" where
  "filter_expenses rx ts c df =
     then_do (date_step ts (\<lambda>a b. b \<le> a) (start_date c) df) (\<lambda>df.
     then_do (date_step ts (\<lambda>a b. a \<le> b) (end_date c) df) (\<lambda>df.
     then_do (Inr (if truthy (category_c c) \<and> category_c c \<noteq> Some ''All''
                   then filter (\<lambda>r. category r = the (category_c c)) df else df)) (\<lambda>df.
     then_do (Inr (case min_amount c of None \<Rightarrow> df
                   | Some a \<Rightarrow> filter (\<lambda>r. a \<le> amount r) df)) (\<lambda>df.
     then_do (Inr (case max_amount c of None \<Rightarrow> df
                   | Some a \<Rightarrow> filter (\<lambda>r. amount r \<le> a) df)) (\<lambda>df.
     keyword_step rx (desc_keyword c) df)))))"

text \<open>
  The arguments are usable when the two dates, if given, can be read and the keyword, if
  given, compiles; a row matches when it passes every test that is switched on.
\<close>

definition usable :: "regex \<Rightarrow> (string \<Rightarrow> timestamp option) \<Rightarrow> criteria \<Rightarrow> bool" where
  "usable rx ts c =
     ((if truthy (start_date c) then ts (the (start_date c)) \<noteq> None else True)
      \<and> (if truthy (end_date c) then ts (the (end_date c)) \<noteq> None else True)
      \<and> (if truthy (desc_keyword c) then rx (the (desc_keyword c)) \<noteq> None else True))"

definition date_test ::
    "(string \<Rightarrow> timestamp option) \<Rightarrow> (int \<Rightarrow> int \<Rightarrow> bool) \<Rightarrow> string option
      \<Rightarrow> timestamp option expense \<Rightarrow> bool" where
  "date_test ts cmp bound r =
     (if truthy bound
      then (case date r of
              None \<Rightarrow> False
            | Some d \<Rightarrow> cmp (ordinal d) (ordinal (the (ts (the bound)))))
      else True)"

definition matches ::
    "regex \<Rightarrow> (string \<Rightarrow> timestamp option) \<Rightarrow> criteria \<Rightarrow> timestamp option expense \<Rightarrow> bool" where
  "matches rx ts c r =
     (date_test ts (\<lambda>a b. b \<le> a) (start_date c) r
      \<and> date_test ts (\<lambda>a b. a \<le> b) (end_date c) r
      \<and> (if truthy (category_c c) \<and> category_c c \<noteq> Some ''All''
          then category r = the (category_c c) else True)
      \<and> (case min_amount c of None \<Rightarrow> True | Some a \<Rightarrow> a \<le> amount r)
      \<and> (case max_amount c of None \<Rightarrow> True | Some a \<Rightarrow> amount r \<le> a)
      \<and> (if truthy (desc_keyword c)
          then the (rx (the (desc_keyword c))) (description r) else True))"


section \<open>Period aggregator\<close>

text \<open>
  \<^verbatim>\<open>groupby(key)['Amount'].sum()\<close>: one entry per key, in ascending order of the keys,
  with the sum of the amounts of the rows of that key, added in the order of the rows as
  pandas adds the doubles of a group.
\<close>

definition groupby_sum :: "('a \<Rightarrow> int) \<Rightarrow> ('a \<Rightarrow> real) \<Rightarrow> 'a list \<Rightarrow> (int \<times> real) list" where
  "groupby_sum key val xs =
     map (\<lambda>k. (k, group_sum (map val (filter (\<lambda>x. key x = k) xs))))
       (sort (remdups (map key xs)))"




text \<open>Rows for the concrete evaluations.\<close>

definition dated_row :: "int \<Rightarrow> real \<Rightarrow> string \<Rightarrow> string \<Rightarrow> string expense" where
  "dated_row i a d descr =
     \<lparr>exp_id = i, amount = a, category = ''Food'', date = d, description = descr\<rparr>"

text \<open>A keyword without the wildcards of \<^verbatim>\<open>LIKE\<close>.\<close>

definition plain :: "string \<Rightarrow> bool" where
  "plain keyword = (CHR ''%'' \<notin> set keyword \<and> CHR ''_'' \<notin> set keyword)"

definition lunch_store :: store where
  "lunch_store = \<lparr>rows = [dated_row 1 10 ''2024-01-01'' ''lunch''], seq = 1\<rparr>"

text \<open>
  For a keyword of ASCII letters and digits the regular expression is the keyword itself,
  and Python's search is the substring search without regard to case. This instance of
  \<open>rx\<close> serves the concrete evaluations, on such keywords only.
\<close>

definition word_search :: regex where
  "word_search keyword = Some (contains_ci keyword)"

definition ts_row ::
    "int \<Rightarrow> real \<Rightarrow> string \<Rightarrow> timestamp \<Rightarrow> string \<Rightarrow> timestamp option expense" where
  "ts_row i a c t descr =
     \<lparr>exp_id = i, amount = a, category = c, date = Some t, description = descr\<rparr>"

definition sample_df :: "timestamp option expense list" where
  "sample_df =
     [ts_row 1 10 ''Food'' (2024, 1, 1) ''lunch'',
      ts_row 2 12 ''Food'' (2024, 1, 15) ''Dinner'',
      ts_row 3 500 ''Rent'' (2024, 1, 20) ''flat'',
      ts_row 4 30 ''Food'' (2024, 3, 2) ''lunch out'']"

definition crit_a :: criteria where
  "crit_a = no_criteria\<lparr>start_date := Some ''2024-01-10'', category_c := Some ''Food''\<rparr>"

definition crit_b :: criteria where
  "crit_b = no_criteria\<lparr>max_amount := Some 100, desc_keyword := Some ''LUNCH''\<rparr>"


section \<open>Properties of the reductions\<close>

lemma sum_list_const:
  "\<forall>x \<in> set xs. x = (a::real) \<Longrightarrow> sum_list xs = real (length xs) * a"
  by (induction xs) (auto simp: algebra_simps)

lemma sum_list_map_zero:
  "\<forall>x \<in> set xs. f x = (0::real) \<Longrightarrow> sum_list (map f xs) = 0"
  by (induction xs) auto

lemma np_mean_const: "xs \<noteq> [] \<Longrightarrow> \<forall>x \<in> set xs. x = a \<Longrightarrow> np_mean xs = a"
  by (simp add: np_mean_def sum_list_const)

lemma np_var_const: "xs \<noteq> [] \<Longrightarrow> \<forall>x \<in> set xs. x = a \<Longrightarrow> np_var xs = 0"
  unfolding np_var_def
  by (rule np_mean_const) (auto simp: np_mean_const)

lemma pd_var_const:
  assumes "\<forall>x \<in> set xs. x = a" and "pd_var xs = Some v"
  shows "v = 0"
proof -
  from assms(2) have ne: "xs \<noteq> []"
    by (auto simp: pd_var_def)
  have "sum_list (map (\<lambda>x. (x - np_mean xs) ^ 2) xs) = 0"
    using assms(1) by (intro sum_list_map_zero) (simp add: np_mean_const [OF ne assms(1)])
  with assms(2) show ?thesis
    by (simp add: pd_var_def split: if_splits)
qed

lemma np_var_nonneg: "0 \<le> np_var xs"
  unfolding np_var_def np_mean_def
  by (intro divide_nonneg_nonneg sum_list_nonneg) auto

lemma pd_var_nonneg: "pd_var xs = Some v \<Longrightarrow> 0 \<le> v"
  by (auto simp: pd_var_def split: if_splits intro!: divide_nonneg_nonneg sum_list_nonneg)

text \<open>Comparing a deviation with two standard deviations, without the square root.\<close>

lemma two_sqrt_less_abs: "0 \<le> v \<Longrightarrow> (2 * sqrt v < \<bar>d\<bar>) = (4 * v < d ^ 2)"
proof -
  assume v: "0 \<le> v"
  have "2 * sqrt v = sqrt (4 * v)"
    by (simp add: real_sqrt_mult)
  moreover have "\<bar>d\<bar> = sqrt (d ^ 2)"
    by simp
  ultimately show ?thesis
    by (simp only: real_sqrt_less_iff)
qed

lemma outside_band:
  "0 \<le> v \<Longrightarrow> (m + 2 * sqrt v < x \<or> x < m - 2 * sqrt v) = (4 * v < (x - m) ^ 2)"
proof -
  assume v: "0 \<le> v"
  have "(m + 2 * sqrt v < x \<or> x < m - 2 * sqrt v) = (2 * sqrt v < \<bar>x - m\<bar>)"
    by linarith
  then show ?thesis
    by (simp only: two_sqrt_less_abs [OF v])
qed

lemma detect_outliers_squares:
  "detect_outliers expenses =
     (if expenses = [] then {}
      else set (map exp_id (filter (\<lambda>row. 4 * np_var (map amount expenses)
                 < (amount row - np_mean (map amount expenses)) ^ 2) expenses)))"
  by (simp add: detect_outliers_def np_std_def two_sqrt_less_abs [OF np_var_nonneg] Let_def)

lemma detect_outliers_st_squares:
  "detect_outliers_st df =
     (if df = [] then {}
      else case pd_var (map amount df) of
             None \<Rightarrow> {}
           | Some v \<Rightarrow> set (map exp_id (filter (\<lambda>row. 4 * v
                 < (amount row - np_mean (map amount df)) ^ 2) df)))"
  by (auto simp: detect_outliers_st_def pd_std_def outside_band [OF pd_var_nonneg] Let_def
      split: option.splits)


section \<open>Statistics engine: properties\<close>

text \<open>
  What \<^verbatim>\<open>get_stats\<close> of \<^verbatim>\<open>expense_tracker.py\<close> returns for a non-empty collection:
  the sum, the mean, the median (middle of the sorted amounts, or the mean of the two
  middle ones), the least and the greatest amount, and the variance and standard deviation
  with divisor \<open>n\<close>.
\<close>

lemma get_stats_tk_values:
  assumes "expenses \<noteq> []"
  shows "map_of (get_stats it expenses) ''total'' = Some (KFloat (\<Sum>e\<leftarrow>expenses. amount e))"
    and "map_of (get_stats it expenses) ''average''
           = Some (KFloat ((\<Sum>e\<leftarrow>expenses. amount e) / real (length expenses)))"
    and "map_of (get_stats it expenses) ''min'' = Some (KFloat (Min (amount ` set expenses)))"
    and "map_of (get_stats it expenses) ''max'' = Some (KFloat (Max (amount ` set expenses)))"
    and "map_of (get_stats it expenses) ''var''
           = Some (KFloat ((\<Sum>e\<leftarrow>expenses. (amount e - np_mean (map amount expenses)) ^ 2)
                            / real (length expenses)))"
    and "map_of (get_stats it expenses) ''std'' = Some (KFloat (sqrt (np_var (map amount expenses))))"
    and "map_of (get_stats it expenses) ''median'' = Some (KFloat (np_median (map amount expenses)))"
proof -
  obtain e es where ex: "expenses = e # es"
    using assms by (cases expenses) auto
  show "map_of (get_stats it expenses) ''total'' = Some (KFloat (\<Sum>e\<leftarrow>expenses. amount e))"
    using assms by (simp add: get_stats_def np_sum_def Let_def)
  show "map_of (get_stats it expenses) ''average''
           = Some (KFloat ((\<Sum>e\<leftarrow>expenses. amount e) / real (length expenses)))"
    using assms by (simp add: get_stats_def np_mean_def Let_def)
  show "map_of (get_stats it expenses) ''min'' = Some (KFloat (Min (amount ` set expenses)))"
    by (simp add: get_stats_def Let_def ex Min.set_eq_fold [symmetric])
  show "map_of (get_stats it expenses) ''max'' = Some (KFloat (Max (amount ` set expenses)))"
    by (simp add: get_stats_def Let_def ex Max.set_eq_fold [symmetric])
  show "map_of (get_stats it expenses) ''var''
           = Some (KFloat ((\<Sum>e\<leftarrow>expenses. (amount e - np_mean (map amount expenses)) ^ 2)
                            / real (length expenses)))"
    using assms by (simp add: get_stats_def Let_def np_var_def np_mean_def comp_def)
  show "map_of (get_stats it expenses) ''std'' = Some (KFloat (sqrt (np_var (map amount expenses))))"
    using assms by (simp add: get_stats_def Let_def np_std_def)
  show "map_of (get_stats it expenses) ''median'' = Some (KFloat (np_median (map amount expenses)))"
    using assms by (simp add: get_stats_def Let_def)
qed

text \<open>
  C4. For the empty collection both copies of the statistics engine return the empty
  dictionary: it has no key at all, in particular no \<^verbatim>\<open>total\<close> of value zero.
\<close>

theorem C4_get_stats_empty:
  "get_stats it [] = [] \<and> get_stats_st [] = []
   \<and> map_of (get_stats it []) k = None \<and> map_of (get_stats_st []) k = None"
  by (simp add: get_stats_def get_stats_st_def)

text \<open>
  C3, evaluated on the two amounts 10 and 12 (mean 11). The population variance and
  standard deviation are 1 and 1, and \<^verbatim>\<open>get_stats\<close> of \<^verbatim>\<open>expense_tracker.py\<close> returns them;
  \<^verbatim>\<open>get_stats\<close> of \<^verbatim>\<open>expense_tracker_streamlit.py\<close> returns 2 and \<open>sqrt 2\<close>, the values
  with divisor \<open>n - 1\<close>.
\<close>

theorem C3_streamlit_sample_variance:
  "map_of (get_stats_st [food_row 1 10, food_row 2 12]) ''var'' = Some (KFloat 2)
   \<and> map_of (get_stats_st [food_row 1 10, food_row 2 12]) ''std'' = Some (KFloat (sqrt 2))
   \<and> map_of (get_stats it [food_row 1 10, food_row 2 12]) ''var'' = Some (KFloat 1)
   \<and> map_of (get_stats it [food_row 1 10, food_row 2 12]) ''std'' = Some (KFloat 1)"
  by (simp add: get_stats_st_def get_stats_def food_row_def pd_std_def pd_var_def np_std_def
      np_var_def np_mean_def kfloat_def power2_eq_square Let_def)


section \<open>Outlier detector: properties\<close>

text \<open>
  \<^verbatim>\<open>detect_outliers\<close> of \<^verbatim>\<open>expense_tracker.py\<close> flags the ids of the rows whose amount is
  more than two population standard deviations from the mean, for the mean and the standard
  deviation that \<^verbatim>\<open>get_stats\<close> of the same file reports for the collection.
\<close>

lemma detect_outliers_tk_flags:
  assumes "expenses \<noteq> []"
    and "map_of (get_stats it expenses) ''average'' = Some (KFloat mean)"
    and "map_of (get_stats it expenses) ''std'' = Some (KFloat std)"
  shows "detect_outliers expenses
           = {i. \<exists>e. e \<in> set expenses \<and> exp_id e = i \<and> \<bar>amount e - mean\<bar> > 2 * std}"
    and "detect_outliers expenses \<subseteq> exp_id ` set expenses"
proof -
  from assms have m: "mean = np_mean (map amount expenses)"
    and s: "std = np_std (map amount expenses)"
    by (simp_all add: get_stats_def Let_def)
  show "detect_outliers expenses
           = {i. \<exists>e. e \<in> set expenses \<and> exp_id e = i \<and> \<bar>amount e - mean\<bar> > 2 * std}"
    using assms(1) by (auto simp: detect_outliers_def Let_def m s)
  show "detect_outliers expenses \<subseteq> exp_id ` set expenses"
    by (auto simp: detect_outliers_def Let_def)
qed

text \<open>
  C2, evaluated on six rows with the amounts 10, 10, 10, 10, 13, 20 (mean 73/6, population
  variance 485/36, so twice the population standard deviation is about 7.34). Row 6 deviates
  by 47/6, about 7.83, and \<^verbatim>\<open>detect_outliers\<close> of \<^verbatim>\<open>expense_tracker.py\<close> flags it. The copy in
  \<^verbatim>\<open>expense_tracker_streamlit.py\<close> compares with the standard deviation of divisor \<open>n - 1\<close>
  (twice it is about 8.04) and flags nothing.
\<close>

theorem C2_streamlit_misses_outlier:
  "detect_outliers_st
     [food_row 1 10, food_row 2 10, food_row 3 10, food_row 4 10, food_row 5 13, food_row 6 20] = {}
   \<and> detect_outliers
     [food_row 1 10, food_row 2 10, food_row 3 10, food_row 4 10, food_row 5 13, food_row 6 20] = {6}"
  by (simp add: detect_outliers_st_squares detect_outliers_squares food_row_def pd_var_def
      np_var_def np_mean_def power2_eq_square)

text \<open>
  By the exact formulas, no row of a non-empty collection whose rows all have the same
  amount is flagged, in either copy of the detector: the deviation 0 is not greater than
  twice the standard deviation 0, and in the Streamlit copy a single row has the standard
  deviation NaN, with which every comparison is false. In double precision this holds
  with a proviso, given with the properties of the double-precision detector below.
\<close>

lemma no_outlier_without_spread_exact:
  assumes "expenses \<noteq> []" and "\<forall>e \<in> set expenses. amount e = a"
  shows "detect_outliers expenses = {} \<and> detect_outliers_st expenses = {}"
proof
  have ne: "map amount expenses \<noteq> []"
    using assms(1) by simp
  have al: "\<forall>x \<in> set (map amount expenses). x = a"
    using assms(2) by auto
  have m: "np_mean (map amount expenses) = a"
    by (rule np_mean_const [OF ne al])
  have s: "np_std (map amount expenses) = 0"
    by (simp add: np_std_def np_var_const [OF ne al])
  show "detect_outliers expenses = {}"
    using assms by (simp add: detect_outliers_def m s)
  show "detect_outliers_st expenses = {}"
  proof (cases "pd_var (map amount expenses)")
    case None
    then show ?thesis
      by (simp add: detect_outliers_st_def pd_std_def)
  next
    case (Some v)
    with pd_var_const [OF al] have "v = 0"
      by simp
    with Some assms show ?thesis
      by (simp add: detect_outliers_st_def pd_std_def m)
  qed
qed


section \<open>Double precision: properties\<close>

text \<open>
  Powers of two with an integer exponent.
\<close>

lemma pow2_powr: "pow2 q = 2 powr (of_int q)"
  apply (cases "0 \<le> q")
   apply (simp add: pow2_def powr_realpow [symmetric])
  apply (simp add: pow2_def powr_realpow [symmetric] powr_minus_divide [symmetric])
  done

lemma pow2_pos: "0 < pow2 q"
  by (simp add: pow2_def)








text \<open>
  The binade of a number: \<open>\<lfloor>log 2 \<bar>x\<bar>\<rfloor> = k\<close> exactly when \<open>2 ^ k \<le> \<bar>x\<bar> < 2 ^ (k + 1)\<close>. With the
  binade given, the rounding of a number is computed by \<open>rnd_eval\<close>.
\<close>

lemma expo_eq:
  assumes "pow2 k \<le> \<bar>x\<bar>" and "\<bar>x\<bar> < pow2 (k + 1)"
  shows "\<lfloor>log 2 \<bar>x\<bar>\<rfloor> = k"
proof -
  have pos: "0 < \<bar>x\<bar>" using assms(1) pow2_pos [of k] by linarith
  have "of_int k \<le> log 2 \<bar>x\<bar>"
    using assms(1) pos by (simp add: pow2_powr le_log_iff)
  moreover have "log 2 \<bar>x\<bar> < of_int k + 1"
    using assms(2) pos by (simp add: pow2_powr log_less_iff)
  ultimately show ?thesis
    by (simp add: floor_unique)
qed


lemma rnd_eval:
  assumes "pow2 k \<le> \<bar>x\<bar>" and "\<bar>x\<bar> < pow2 (k + 1)"
  shows "rnd x = of_int (rne (x / pow2 (max (k - 52) (- 1074)))) * pow2 (max (k - 52) (- 1074))"
proof -
  have "x \<noteq> 0" using assms(1) pow2_pos [of k] by auto
  then show ?thesis
    by (simp add: rnd_def quantum_def expo_eq [OF assms])
qed





























section \<open>Outlier detector in double precision: properties\<close>

text \<open>
  \<^verbatim>\<open>detect_outliers\<close> of \<^verbatim>\<open>expense_tracker.py\<close> flags the ids of the rows whose amount is
  more than two standard deviations from the mean, in the arithmetic of doubles, for the
  mean and the standard deviation that \<^verbatim>\<open>get_stats\<close> reports for the collection.
\<close>

lemma detect_outliers64_flags:
  assumes "expenses \<noteq> []"
    and "map_of (get_stats64 it expenses) ''average'' = Some (KFloat mean)"
    and "map_of (get_stats64 it expenses) ''std'' = Some (KFloat std)"
  shows "detect_outliers64 expenses
           = {i. \<exists>e. e \<in> set expenses \<and> exp_id e = i \<and> \<bar>fsub (amount e) mean\<bar> > fmul 2 std}"
proof -
  from assms have m: "mean = np_mean64 (map amount expenses)"
    and s: "std = np_std64 (map amount expenses)"
    by (simp_all add: get_stats64_def Let_def)
  show ?thesis
    using assms(1) by (auto simp: detect_outliers64_def Let_def m s)
qed




text \<open>The mean of a single amount is the amount.\<close>

lemma np_mean64_single: "rnd a = a \<Longrightarrow> np_mean64 [a] = a"
  by (simp add: np_mean64_def np_sum64_def pairwise_sum.simps seq_sum_def fadd_def fdiv_def)












section \<open>Expense store: properties\<close>

lemma list_ex_id: "list_ex (\<lambda>r. exp_id r = i) rs \<longleftrightarrow> i \<in> exp_id ` set rs"
  by (auto simp: list_ex_iff)

text \<open>
  C5, as the code has it. For an id of 64 bits that no row has, \<^verbatim>\<open>update_expense\<close> and
  \<^verbatim>\<open>delete_expense\<close> leave the store as it is and return normally: the caller gets the
  same \<^verbatim>\<open>None\<close> as for an id that is there, and no error of any kind. An id outside the
  64 bits raises \<^verbatim>\<open>OverflowError\<close> in both, and the store stays as it is. For an id of
  64 bits that a row has, both return normally (the update for an amount that is no NaN);
  afterwards no row has the deleted id, and the update keeps the ids.
\<close>

theorem C5_update_delete_unknown_id_silent:
  "(int64 expense_id \<and> expense_id \<notin> exp_id ` set (rows st) \<longrightarrow>
      update_expense expense_id amt cat d descr st = (Inr (), st)
      \<and> delete_expense expense_id st = (Inr (), st))
   \<and> (\<not> int64 expense_id \<longrightarrow>
      update_expense expense_id amt cat d descr st = (Inl OverflowError, st)
      \<and> delete_expense expense_id st = (Inl OverflowError, st))
   \<and> (int64 expense_id \<and> expense_id \<in> exp_id ` set (rows st) \<longrightarrow>
      fst (update_expense expense_id (Fl a) cat d descr st) = Inr ()
      \<and> map exp_id (rows (snd (update_expense expense_id (Fl a) cat d descr st)))
          = map exp_id (rows st)
      \<and> fst (delete_expense expense_id st) = Inr ()
      \<and> expense_id \<notin> exp_id ` set (rows (snd (delete_expense expense_id st))))"
proof (intro conjI impI)
  assume n: "int64 expense_id \<and> expense_id \<notin> exp_id ` set (rows st)"
  show "update_expense expense_id amt cat d descr st = (Inr (), st)"
    using n by (simp add: update_expense_def list_ex_id)
  have "filter (\<lambda>r. exp_id r \<noteq> expense_id) (rows st) = rows st"
    using n by (auto simp: filter_id_conv)
  then show "delete_expense expense_id st = (Inr (), st)"
    using n by (simp add: delete_expense_def)
next
  assume n: "\<not> int64 expense_id"
  show "update_expense expense_id amt cat d descr st = (Inl OverflowError, st)"
    using n by (simp add: update_expense_def)
  show "delete_expense expense_id st = (Inl OverflowError, st)"
    using n by (simp add: delete_expense_def)
next
  assume n: "int64 expense_id \<and> expense_id \<in> exp_id ` set (rows st)"
  show "fst (update_expense expense_id (Fl a) cat d descr st) = Inr ()"
    using n by (simp add: update_expense_def)
  show "map exp_id (rows (snd (update_expense expense_id (Fl a) cat d descr st)))
          = map exp_id (rows st)"
    using n by (simp add: update_expense_def)
  show "fst (delete_expense expense_id st) = Inr ()"
    using n by (simp add: delete_expense_def)
  show "expense_id \<notin> exp_id ` set (rows (snd (delete_expense expense_id st)))"
    using n by (auto simp: delete_expense_def)
qed

theorem C5_witness:
  "update_expense 7 (Fl 5) ''Rent'' ''2024-02-01'' [] one_store = (Inr (), one_store)
   \<and> delete_expense 7 one_store = (Inr (), one_store)
   \<and> update_expense (2 ^ 63) (Fl 5) ''Rent'' ''2024-02-01'' [] one_store
       = (Inl OverflowError, one_store)
   \<and> delete_expense (- (2 ^ 63) - 1) one_store = (Inl OverflowError, one_store)
   \<and> fst (update_expense 1 (Fl 5) ''Rent'' ''2024-02-01'' [] one_store) = Inr ()
   \<and> rows (snd (delete_expense 1 one_store)) = []"
  using C5_update_delete_unknown_id_silent [of 7 one_store "Fl 5" "''Rent''" "''2024-02-01''" "[]"]
    C5_update_delete_unknown_id_silent [of "2 ^ 63" one_store "Fl 5" "''Rent''" "''2024-02-01''" "[]"]
    C5_update_delete_unknown_id_silent [of "- (2 ^ 63) - 1" one_store "Fl 5" "''Rent''" "''2024-02-01''" "[]"]
    C5_update_delete_unknown_id_silent [of 1 one_store "Fl 5" "''Rent''" "''2024-02-01''" "[]" 5]
  by (simp add: one_store_def food_row_def delete_expense_def int64_def)

text \<open>
  The claim as it is written fails on the store with the single row 1: update and delete
  of the id 7 give no error.
\<close>

theorem C5_counterexample:
  "\<not> isl (fst (update_expense 7 (Fl 5) ''Rent'' ''2024-02-01'' [] one_store))
   \<and> \<not> isl (fst (delete_expense 7 one_store))"
  by (simp add: update_expense_def delete_expense_def one_store_def food_row_def int64_def)


section \<open>Import: properties\<close>

lemma row_ok_args:
  "row_ok pf r \<Longrightarrow>
     \<exists>a c d descr. row_args pf r = Inr (Fl a, c, d, descr) \<and> row_fields pf r = Some (a, c, d, descr)"
  by (auto simp: row_ok_def row_fields_def split: sum.splits prod.splits pyfloat.splits)

lemma not_row_ok_args:
  "\<not> row_ok pf r \<Longrightarrow>
     (\<exists>e. row_args pf r = Inl e) \<or> (\<exists>c d descr. row_args pf r = Inr (NaN, c, d, descr))"
  by (auto simp: row_ok_def row_fields_def split: sum.splits prod.splits pyfloat.splits)

text \<open>
  An insertion moves the next rowid on by one.
\<close>

lemma fold_max_ge: "(a::int) \<le> fold max xs a"
proof (induction xs arbitrary: a)
  case Nil
  show ?case by simp
next
  case (Cons x xs)
  have "a \<le> max x a" by simp
  also have "\<dots> \<le> fold max xs (max x a)" by (rule Cons.IH)
  finally show ?case by simp
qed

lemma new_rowid_pos: "0 < new_rowid st"
  using fold_max_ge [of 0 "map exp_id (rows st)"] by (simp add: new_rowid_def)

lemma new_rowid_add_expense:
  "add_expense (Fl a) c d descr st = (Inr (), st') \<Longrightarrow> new_rowid st' = new_rowid st + 1"
  by (auto simp: add_expense_def new_rowid_def max_def split: if_splits)

text \<open>
  In a table with room for the rows of the frame, the loop appends one row for every frame
  row before the first bad one, and succeeds exactly when there is no bad one.
\<close>

lemma import_rows_char:
  "import_rows pf df st = (res, st') \<Longrightarrow> new_rowid st + int (length df) \<le> 2 ^ 63 \<Longrightarrow>
     (\<exists>new. rows st' = rows st @ new
        \<and> map expense_fields new = List.map_filter (row_fields pf) (takeWhile (row_ok pf) df))
     \<and> (res = Inr () \<longleftrightarrow> list_all (row_ok pf) df)"
proof (induction df arbitrary: st)
  case Nil
  then show ?case
    by (auto simp: List.map_filter_simps)
next
  case (Cons r rs)
  have room: "int64 (new_rowid st)"
    using Cons.prems(2) new_rowid_pos [of st] by (simp add: int64_def)
  show ?case
  proof (cases "row_ok pf r")
    case True
    then obtain a c d descr where ra: "row_args pf r = Inr (Fl a, c, d, descr)"
      and rf: "row_fields pf r = Some (a, c, d, descr)"
      using row_ok_args by blast
    obtain st1 where ae: "add_expense (Fl a) c d descr st = (Inr (), st1)"
      using room by (simp add: add_expense_def)
    have ir: "import_rows pf rs st1 = (res, st')"
      using Cons.prems(1) ra ae by simp
    have "new_rowid st1 + int (length rs) \<le> 2 ^ 63"
      using new_rowid_add_expense [OF ae] Cons.prems(2) by simp
    from Cons.IH [OF ir this] obtain new where
      n: "rows st' = rows st1 @ new"
        "map expense_fields new = List.map_filter (row_fields pf) (takeWhile (row_ok pf) rs)"
      and r: "res = Inr () \<longleftrightarrow> list_all (row_ok pf) rs"
      by blast
    let ?e = "\<lparr>exp_id = new_rowid st, amount = a, category = c, date = d, description = descr\<rparr>"
    have "rows st' = rows st @ (?e # new)"
      using n(1) room ae by (auto simp: add_expense_def)
    moreover have "map expense_fields (?e # new)
        = List.map_filter (row_fields pf) (takeWhile (row_ok pf) (r # rs))"
      using n(2) True rf by (simp add: expense_fields_def List.map_filter_simps)
    ultimately have "\<exists>new. rows st' = rows st @ new
        \<and> map expense_fields new = List.map_filter (row_fields pf) (takeWhile (row_ok pf) (r # rs))"
      by blast
    then show ?thesis
      using r True by simp
  next
    case False
    with not_row_ok_args [OF False] Cons.prems(1) room show ?thesis
      by (auto simp: add_expense_def List.map_filter_simps)
  qed
qed

text \<open>
  The store after \<^verbatim>\<open>import_data\<close> is the store after the loop, whatever the refresh does;
  a failure of the loop is reported as it is.
\<close>

lemma import_data_rows:
  "import_rows pf df st = (res, st') \<Longrightarrow>
     snd (import_data pf fv (Some (Inr df)) st) = st'
     \<and> (\<forall>e. res = Inl e \<longrightarrow> fst (import_data pf fv (Some (Inr df)) st) = ImportFailed e)"
  by (cases res) (simp_all add: import_data_def split: sum.splits)

text \<open>
  When every row is good, the message is that of the refresh: \<^verbatim>\<open>Imported\<close> when the two
  amount boxes of the filter hold numbers or nothing, and \<^verbatim>\<open>Failed to import\<close> with the
  \<^verbatim>\<open>ValueError\<close> of \<^verbatim>\<open>float\<close> otherwise, with every row inserted all the same.
\<close>

lemma import_data_message:
  assumes "import_rows pf df st = (Inr (), st')"
  shows "fst (import_data pf fv (Some (Inr df)) st) =
           (case float_var pf (min_amount_var fv) of
              Inl e \<Rightarrow> ImportFailed e
            | Inr lo \<Rightarrow>
                (case float_var pf (max_amount_var fv) of
                   Inl e \<Rightarrow> ImportFailed e
                 | Inr hi \<Rightarrow> Imported (length df)))"
  using assms by (simp add: import_data_def refresh_expenses_def split: sum.splits)

text \<open>
  C1, as the code has it. When a row of the frame is bad (its amount is no number, or a
  required column is missing), \<^verbatim>\<open>import_data\<close> reports the failure, and the store holds,
  after the rows it had, one new row for every frame row before the first bad one: these
  stay committed. Nothing of the first bad row or of a later row is inserted. (The table
  has room for the rows of the frame.)
\<close>

theorem C1_import_keeps_rows_before_bad_row:
  assumes "new_rowid st + int (length df) \<le> 2 ^ 63"
  shows "(\<exists>new. rows (snd (import_data pf fv (Some (Inr df)) st)) = rows st @ new
            \<and> map expense_fields new
                = List.map_filter (row_fields pf) (takeWhile (row_ok pf) df))
         \<and> (list_all (row_ok pf) df
             \<or> (\<exists>e. fst (import_data pf fv (Some (Inr df)) st) = ImportFailed e))"
proof -
  obtain res st' where ir: "import_rows pf df st = (res, st')"
    by (cases "import_rows pf df st")
  note c = import_rows_char [OF ir assms]
  note d = import_data_rows [OF ir, of fv]
  from c d have "\<exists>new. rows (snd (import_data pf fv (Some (Inr df)) st)) = rows st @ new
      \<and> map expense_fields new = List.map_filter (row_fields pf) (takeWhile (row_ok pf) df)"
    by simp
  moreover have "list_all (row_ok pf) df
      \<or> (\<exists>e. fst (import_data pf fv (Some (Inr df)) st) = ImportFailed e)"
  proof (cases res)
    case (Inl e)
    with d show ?thesis by blast
  next
    case (Inr u)
    with c show ?thesis by simp
  qed
  ultimately show ?thesis
    by blast
qed

theorem C1_witness:
  "rows (snd (import_data dec_float no_filters
      (Some (Inr [lunch_row (AStr ''10''), lunch_row (AStr ''abc''), lunch_row (AStr ''12'')]))
      empty_store))
     = [\<lparr>exp_id = 1, amount = 10, category = ''Food'', date = ''2024-01-01'',
          description = ''lunch''\<rparr>]"
  using C1_import_keeps_rows_before_bad_row [of empty_store
      "[lunch_row (AStr ''10''), lunch_row (AStr ''abc''), lunch_row (AStr ''12'')]"
      dec_float no_filters]
  by (simp add: import_data_def lunch_row_def row_args_def py_float_def dec_float_def
      digit_of_def py_str_def add_expense_def new_rowid_def empty_store_def int64_def)

text \<open>
  The claim as it is written fails on a frame of three rows with the amounts \<^verbatim>\<open>'10'\<close>,
  \<^verbatim>\<open>'abc'\<close>, \<^verbatim>\<open>'12'\<close>, imported into the empty store: the import fails at the second row, and
  the first row is in the store.
\<close>

theorem C1_counterexample:
  "import_data dec_float no_filters
      (Some (Inr [lunch_row (AStr ''10''), lunch_row (AStr ''abc''), lunch_row (AStr ''12'')]))
      empty_store
   = (ImportFailed (ValueError ''abc''),
      \<lparr>rows = [\<lparr>exp_id = 1, amount = 10, category = ''Food'', date = ''2024-01-01'',
                 description = ''lunch''\<rparr>],
       seq = 1\<rparr>)"
  by (simp add: import_data_def lunch_row_def row_args_def py_float_def dec_float_def
      digit_of_def py_str_def add_expense_def new_rowid_def empty_store_def int64_def)


section \<open>Export followed by import: properties\<close>

lemma read_csv_ok: "list_all (row_ok pf) (read_csv reread file)"
  by (auto simp: list_all_iff read_csv_def row_ok_def row_fields_def row_args_def py_float_def
      split: prod.splits)

lemma length_read_csv: "length (read_csv reread file) = length file"
  by (simp add: read_csv_def)

lemma row_fields_read_csv:
  "i < length fe \<Longrightarrow> row_fields pf (read_csv reread (export_csv fe) ! i) =
    Some (amount (fe ! i), py_str (text_cell reread (map category fe) i),
       py_str (text_cell reread (map date fe) i), py_str (text_cell reread (map description fe) i))"
  by (simp add: read_csv_def export_csv_def row_fields_def row_args_def py_float_def comp_def
      split: prod.splits)

lemma map_filter_all_Some:
  "list_all (\<lambda>x. f x \<noteq> None) xs \<Longrightarrow> List.map_filter f xs = map (the \<circ> f) xs"
  by (induction xs) (auto simp: List.map_filter_simps)

text \<open>
  Importing the file that \<^verbatim>\<open>export_csv\<close> wrote for a collection \<open>fe\<close>, into a table with
  room for its rows, appends one row per exported row, with the amount of that row.
  Category, date and description are the \<^verbatim>\<open>str()\<close> images of what pandas read for the
  field: \<^verbatim>\<open>'nan'\<close> for an empty field. The message is \<^verbatim>\<open>Imported\<close> unless the refresh
  raises.
\<close>

lemma export_import:
  assumes "import_data pf fv (Some (Inr (read_csv reread (export_csv fe)))) st = (out, st')"
    and "new_rowid st + int (length fe) \<le> 2 ^ 63"
  shows "out = (case refresh_expenses pf fv st' of
                  Inl e \<Rightarrow> ImportFailed e | Inr expenses \<Rightarrow> Imported (length fe))"
    and "\<exists>new. rows st' = rows st @ new \<and> length new = length fe
           \<and> (\<forall>i < length fe. expense_fields (new ! i) =
                 (amount (fe ! i), py_str (text_cell reread (map category fe) i),
                  py_str (text_cell reread (map date fe) i),
                  py_str (text_cell reread (map description fe) i)))"
proof -
  let ?df = "read_csv reread (export_csv fe)"
  have ok: "list_all (row_ok pf) ?df"
    by (rule read_csv_ok)
  have len: "length ?df = length fe"
    by (simp add: length_read_csv export_csv_def)
  obtain res st1 where ir: "import_rows pf ?df st = (res, st1)"
    by (cases "import_rows pf ?df st")
  have room: "new_rowid st + int (length ?df) \<le> 2 ^ 63"
    using assms(2) len by simp
  note c = import_rows_char [OF ir room]
  from c ok have res: "res = Inr ()"
    by simp
  from assms(1) ir res have st1: "st1 = st'"
    by (simp add: import_data_def split: sum.splits)
  from c st1 obtain new where n: "rows st' = rows st @ new"
    "map expense_fields new = List.map_filter (row_fields pf) (takeWhile (row_ok pf) ?df)"
    by auto
  show "out = (case refresh_expenses pf fv st' of
                  Inl e \<Rightarrow> ImportFailed e | Inr expenses \<Rightarrow> Imported (length fe))"
    using assms(1) ir res st1 len by (simp add: import_data_def split: sum.splits)
  have tw: "takeWhile (row_ok pf) ?df = ?df"
    using ok by (simp add: list_all_iff)
  have mf: "map expense_fields new = map (the \<circ> row_fields pf) ?df"
  proof -
    have "list_all (\<lambda>x. row_fields pf x \<noteq> None) ?df"
      using ok by (simp add: list_all_iff row_ok_def)
    from map_filter_all_Some [OF this] n(2) show ?thesis
      unfolding tw by simp
  qed
  from mf have l: "length new = length fe"
    using len by (metis length_map)
  have nth: "expense_fields (new ! i) = the (row_fields pf (?df ! i))" if "i < length fe" for i
  proof -
    have "map expense_fields new ! i = map (the \<circ> row_fields pf) ?df ! i"
      by (simp only: mf)
    then show ?thesis
      using that l len by simp
  qed
  show "\<exists>new. rows st' = rows st @ new \<and> length new = length fe
           \<and> (\<forall>i < length fe. expense_fields (new ! i) =
                 (amount (fe ! i), py_str (text_cell reread (map category fe) i),
                  py_str (text_cell reread (map date fe) i),
                  py_str (text_cell reread (map description fe) i)))"
    using n(1) l nth by (intro exI [of _ new]) (simp add: row_fields_read_csv)
qed

text \<open>
  Where pandas reads every non-empty field back as the text written, the imported row has
  the category, date and description of the exported row, except that an empty one of them
  comes back as \<^verbatim>\<open>'nan'\<close>.
\<close>

lemma export_import_as_written:
  assumes "import_data pf fv (Some (Inr (read_csv as_written (export_csv fe)))) st = (out, st')"
    and "new_rowid st + int (length fe) \<le> 2 ^ 63"
  shows "\<exists>new. rows st' = rows st @ new \<and> length new = length fe
           \<and> (\<forall>i < length fe. expense_fields (new ! i) =
                 (amount (fe ! i), nan_if_empty (category (fe ! i)),
                  nan_if_empty (date (fe ! i)), nan_if_empty (description (fe ! i))))"
proof -
  from export_import(2) [OF assms] obtain new where
    n: "rows st' = rows st @ new" "length new = length fe"
    and f: "\<And>i. i < length fe \<Longrightarrow> expense_fields (new ! i) =
                 (amount (fe ! i), py_str (text_cell as_written (map category fe) i),
                  py_str (text_cell as_written (map date fe) i),
                  py_str (text_cell as_written (map description fe) i))"
    by blast
  have "expense_fields (new ! i) =
      (amount (fe ! i), nan_if_empty (category (fe ! i)),
       nan_if_empty (date (fe ! i)), nan_if_empty (description (fe ! i)))"
    if "i < length fe" for i
    using f [OF that] that
    by (simp add: text_cell_def as_written_def py_str_def nan_if_empty_def)
  with n show ?thesis
    by blast
qed

text \<open>
  C9, evaluated on the store that holds the single row
  \<^verbatim>\<open>(1, 10.0, 'Food', '2024-01-01', '')\<close>, whose description is empty. Exporting the row and
  importing the file adds one row with the amount 10, and its description is \<^verbatim>\<open>'nan'\<close>:
  the empty field is read back as NaN, and \<^verbatim>\<open>str(row.get('Description', ''))\<close> is \<^verbatim>\<open>'nan'\<close>.
  This is so whatever the filter boxes hold; with the boxes empty the message is
  \<^verbatim>\<open>Imported 1 expenses\<close>.
\<close>

theorem C9_empty_description_comes_back_as_nan:
  "fst (import_data pf no_filters
        (Some (Inr (read_csv reread (export_csv (rows one_store))))) one_store)
     = Imported 1
   \<and> map description (rows (snd (import_data pf fv
        (Some (Inr (read_csv reread (export_csv (rows one_store))))) one_store)))
     = ['''', ''nan'']
   \<and> map amount (rows (snd (import_data pf fv
        (Some (Inr (read_csv reread (export_csv (rows one_store))))) one_store)))
     = [10, 10]"
  by (simp add: import_data_def read_csv_def export_csv_def one_store_def food_row_def
      row_args_def py_float_def text_cell_def py_str_def add_expense_def new_rowid_def
      int64_def refresh_expenses_def float_var_def no_filters_def split: sum.splits)


section \<open>Filter engine: properties\<close>

lemma any_suffix_True: "P [] \<Longrightarrow> any_suffix P s"
  by (induction s) auto

lemma any_suffix_cong: "(\<And>t. P t = Q t) \<Longrightarrow> any_suffix P s = any_suffix Q s"
  by (induction s) auto

lemma any_suffix_map: "any_suffix P (map f s) = any_suffix (\<lambda>t. P (map f t)) s"
  by (induction s) auto

lemma like_keyword_prefix:
  "plain keyword \<Longrightarrow>
     like (keyword @ ''%'') s = is_prefix (map ascii_lower keyword) (map ascii_lower s)"
proof (induction keyword arbitrary: s)
  case Nil
  then show ?case
    by (simp add: any_suffix_True)
next
  case (Cons k ks)
  then show ?case
    by (cases s) (auto simp: plain_def)
qed

text \<open>
  For a keyword without \<^verbatim>\<open>%\<close> and \<^verbatim>\<open>_\<close>, the pattern \<^verbatim>\<open>%keyword%\<close> matches exactly the
  descriptions that contain the keyword, without regard to case.
\<close>

lemma like_contains:
  "plain keyword \<Longrightarrow> like (''%'' @ keyword @ ''%'') s = contains_ci keyword s"
proof -
  assume p: "plain keyword"
  have "any_suffix (like (keyword @ ''%'')) s
      = any_suffix (\<lambda>t. is_prefix (map ascii_lower keyword) (map ascii_lower t)) s"
    by (rule any_suffix_cong) (simp add: like_keyword_prefix [OF p])
  then show ?thesis
    by (simp add: contains_ci_def any_suffix_map)
qed

text \<open>
  \<^verbatim>\<open>get_filtered_expenses\<close> returns, in the order of the table, the rows that pass every
  test that is switched on; the description test is the \<^verbatim>\<open>LIKE\<close> pattern.
\<close>

lemma get_filtered_expenses_char:
  "get_filtered_expenses c st =
     filter (\<lambda>r.
         (if truthy (start_date c) then the (start_date c) \<le> date r else True)
       \<and> (if truthy (end_date c) then date r \<le> the (end_date c) else True)
       \<and> (if truthy (category_c c) \<and> category_c c \<noteq> Some ''All''
           then category r = the (category_c c) else True)
       \<and> (case min_amount c of None \<Rightarrow> True | Some a \<Rightarrow> a \<le> amount r)
       \<and> (case max_amount c of None \<Rightarrow> True | Some a \<Rightarrow> amount r \<le> a)
       \<and> (if truthy (desc_keyword c)
           then like (''%'' @ the (desc_keyword c) @ ''%'') (description r) else True))
       (rows st)"
  unfolding get_filtered_expenses_def query_def
  by (rule filter_cong) (auto split: option.splits)

text \<open>With a keyword free of wildcards, or none, that is the filter the claim C6 describes.\<close>

lemma get_filtered_expenses_plain:
  assumes "case desc_keyword c of None \<Rightarrow> True | Some k \<Rightarrow> plain k"
  shows "get_filtered_expenses c st =
     filter (\<lambda>r.
         (if truthy (start_date c) then the (start_date c) \<le> date r else True)
       \<and> (if truthy (end_date c) then date r \<le> the (end_date c) else True)
       \<and> (if truthy (category_c c) \<and> category_c c \<noteq> Some ''All''
           then category r = the (category_c c) else True)
       \<and> (case min_amount c of None \<Rightarrow> True | Some a \<Rightarrow> a \<le> amount r)
       \<and> (case max_amount c of None \<Rightarrow> True | Some a \<Rightarrow> amount r \<le> a)
       \<and> (if truthy (desc_keyword c)
           then contains_ci (the (desc_keyword c)) (description r) else True))
       (rows st)"
proof -
  have "like (''%'' @ the (desc_keyword c) @ ''%'') s = contains_ci (the (desc_keyword c)) s"
    if "truthy (desc_keyword c)" for s
    using that assms by (intro like_contains) (auto simp: truthy_def split: option.splits)
  then show ?thesis
    unfolding get_filtered_expenses_char by (intro filter_cong) auto
qed

text \<open>
  C6, evaluated on the store with the single row
  \<^verbatim>\<open>(1, 10.0, 'Food', '2024-01-01', 'lunch')\<close> and the keyword \<^verbatim>\<open>_\<close>, all other arguments
  unset. The description \<^verbatim>\<open>lunch\<close> does not contain the keyword, and
  \<^verbatim>\<open>get_filtered_expenses\<close> returns the row: the query is
  \<^verbatim>\<open>description LIKE '%_%'\<close>, in which the keyword is a wildcard.
\<close>

theorem C6_keyword_is_a_like_pattern:
  "get_filtered_expenses (no_criteria\<lparr>desc_keyword := Some ''_''\<rparr>) lunch_store
     = [dated_row 1 10 ''2024-01-01'' ''lunch'']
   \<and> \<not> contains_ci ''_'' ''lunch''"
  by (simp add: get_filtered_expenses_def query_def no_criteria_def truthy_def lunch_store_def
      dated_row_def contains_ci_def ascii_lower_def)


section \<open>Filter engine of the Streamlit file: properties\<close>

lemma then_do_Inr: "then_do (Inr x) f = f x"
  by (simp add: then_do_def)

lemma then_do_Inl: "then_do (Inl e) f = Inl e"
  by (simp add: then_do_def)

lemma date_step_ok:
  "(if truthy bound then ts (the bound) \<noteq> None else True) \<Longrightarrow>
     date_step ts cmp bound df = Inr (filter (date_test ts cmp bound) df)"
  by (cases "truthy bound")
    (auto simp: date_step_def date_test_def intro!: filter_cong split: option.splits)

lemma date_step_bad:
  "\<not> (if truthy bound then ts (the bound) \<noteq> None else True) \<Longrightarrow>
     date_step ts cmp bound df = Inl (TypeError (the bound))"
  by (auto simp: date_step_def split: if_splits)

lemma keyword_step_ok:
  "(if truthy keyword then rx (the keyword) \<noteq> None else True) \<Longrightarrow>
     keyword_step rx keyword df
       = Inr (filter (\<lambda>r. if truthy keyword
                then the (rx (the keyword)) (description r) else True) df)"
  by (cases "truthy keyword") (auto simp: keyword_step_def intro!: filter_cong)

lemma keyword_step_bad:
  "\<not> (if truthy keyword then rx (the keyword) \<noteq> None else True) \<Longrightarrow>
     keyword_step rx keyword df = Inl (RegexError (the keyword))"
  by (auto simp: keyword_step_def split: if_splits)

lemma if_filter: "(if b then filter P xs else xs) = filter (\<lambda>r. if b then P r else True) xs"
  by simp

lemma case_filter:
  "(case m of None \<Rightarrow> xs | Some a \<Rightarrow> filter (P a) xs)
     = filter (\<lambda>r. case m of None \<Rightarrow> True | Some a \<Rightarrow> P a r) xs"
  by (cases m) simp_all

text \<open>With usable arguments \<^verbatim>\<open>filter_expenses\<close> keeps the matching rows, in their order.\<close>

lemma filter_expenses_usable:
  assumes "usable rx ts c"
  shows "filter_expenses rx ts c df = Inr (filter (matches rx ts c) df)"
proof -
  from assms have u:
    "if truthy (start_date c) then ts (the (start_date c)) \<noteq> None else True"
    "if truthy (end_date c) then ts (the (end_date c)) \<noteq> None else True"
    "if truthy (desc_keyword c) then rx (the (desc_keyword c)) \<noteq> None else True"
    by (simp_all add: usable_def)
  have m: "matches rx ts c = (\<lambda>r.
      ((((date_test ts (\<lambda>a b. b \<le> a) (start_date c) r
      \<and> date_test ts (\<lambda>a b. a \<le> b) (end_date c) r)
      \<and> (if truthy (category_c c) \<and> category_c c \<noteq> Some ''All''
          then category r = the (category_c c) else True))
      \<and> (case min_amount c of None \<Rightarrow> True | Some a \<Rightarrow> a \<le> amount r))
      \<and> (case max_amount c of None \<Rightarrow> True | Some a \<Rightarrow> amount r \<le> a))
      \<and> (if truthy (desc_keyword c)
          then the (rx (the (desc_keyword c))) (description r) else True))"
    by (rule ext) (simp only: matches_def conj_assoc)
  show ?thesis
    unfolding filter_expenses_def
      date_step_ok [where bound = "start_date c" and ts = ts, OF u(1)]
      date_step_ok [where bound = "end_date c" and ts = ts, OF u(2)]
      keyword_step_ok [where keyword = "desc_keyword c" and rx = rx, OF u(3)]
      then_do_Inr if_filter case_filter filter_filter m
    by (rule arg_cong [where f = Inr], rule filter_cong, rule refl) (simp only: conj_assoc)
qed

text \<open>Otherwise it fails, at the first argument that cannot be used.\<close>

lemma filter_expenses_unusable:
  assumes "\<not> usable rx ts c"
  shows "\<exists>e. filter_expenses rx ts c df = Inl e"
proof -
  let ?u1 = "if truthy (start_date c) then ts (the (start_date c)) \<noteq> None else True"
  let ?u2 = "if truthy (end_date c) then ts (the (end_date c)) \<noteq> None else True"
  let ?u3 = "if truthy (desc_keyword c) then rx (the (desc_keyword c)) \<noteq> None else True"
  from assms consider "\<not> ?u1" | "?u1" "\<not> ?u2" | "?u1" "?u2" "\<not> ?u3"
    unfolding usable_def by blast
  then show ?thesis
  proof cases
    case 1
    show ?thesis
      unfolding filter_expenses_def
        date_step_bad [where bound = "start_date c" and ts = ts, OF 1] then_do_Inl
      by blast
  next
    case 2
    show ?thesis
      unfolding filter_expenses_def
        date_step_ok [where bound = "start_date c" and ts = ts, OF 2(1)]
        date_step_bad [where bound = "end_date c" and ts = ts, OF 2(2)]
        then_do_Inr then_do_Inl
      by blast
  next
    case 3
    show ?thesis
      unfolding filter_expenses_def
        date_step_ok [where bound = "start_date c" and ts = ts, OF 3(1)]
        date_step_ok [where bound = "end_date c" and ts = ts, OF 3(2)]
        keyword_step_bad [where keyword = "desc_keyword c" and rx = rx, OF 3(3)] then_do_Inr
      by blast
  qed
qed

lemma filter_expenses_Inr:
  "filter_expenses rx ts c df = Inr res
     \<longleftrightarrow> usable rx ts c \<and> res = filter (matches rx ts c) df"
proof (cases "usable rx ts c")
  case True
  then show ?thesis
    by (auto simp: filter_expenses_usable)
next
  case False
  with filter_expenses_unusable [OF False, of df] show ?thesis
    by auto
qed

lemma then_filter_Inr:
  "then_do (filter_expenses rx ts a df) (filter_expenses rx ts b) = Inr res
     \<longleftrightarrow> usable rx ts a \<and> usable rx ts b
         \<and> res = filter (\<lambda>r. matches rx ts a r \<and> matches rx ts b r) df"
proof (cases "usable rx ts a")
  case True
  then show ?thesis
    by (simp add: filter_expenses_usable then_do_Inr filter_expenses_Inr)
next
  case False
  with filter_expenses_unusable [OF False, of df] show ?thesis
    by (auto simp: then_do_Inl)
qed

text \<open>
  C7. Filtering the result of \<^verbatim>\<open>filter_expenses\<close> again by the same arguments changes
  nothing (also when the call fails: the failure is the same). Filtering by \<open>a\<close> and then by
  \<open>b\<close> gives a result exactly when filtering by \<open>b\<close> and then by \<open>a\<close> gives it, and that
  is exactly when both argument sets are usable and the result is the one pass over the data
  frame that keeps the rows matching \<open>a\<close> and \<open>b\<close> together.
\<close>

theorem C7_filter_idempotent_commutative:
  "then_do (filter_expenses rx ts a df) (filter_expenses rx ts a) = filter_expenses rx ts a df
   \<and> (then_do (filter_expenses rx ts a df) (filter_expenses rx ts b) = Inr res
        \<longleftrightarrow> then_do (filter_expenses rx ts b df) (filter_expenses rx ts a) = Inr res)
   \<and> (then_do (filter_expenses rx ts a df) (filter_expenses rx ts b) = Inr res
        \<longleftrightarrow> usable rx ts a \<and> usable rx ts b
            \<and> res = filter (\<lambda>r. matches rx ts a r \<and> matches rx ts b r) df)"
proof (intro conjI)
  show "then_do (filter_expenses rx ts a df) (filter_expenses rx ts a)
      = filter_expenses rx ts a df"
  proof (cases "usable rx ts a")
    case True
    then show ?thesis
      by (simp add: filter_expenses_usable then_do_Inr)
  next
    case False
    with filter_expenses_unusable [OF False, of df] show ?thesis
      by (auto simp: then_do_Inl)
  qed
  have "filter (\<lambda>r. matches rx ts a r \<and> matches rx ts b r) df
      = filter (\<lambda>r. matches rx ts b r \<and> matches rx ts a r) df"
    by (rule filter_cong) auto
  then show "then_do (filter_expenses rx ts a df) (filter_expenses rx ts b) = Inr res
        \<longleftrightarrow> then_do (filter_expenses rx ts b df) (filter_expenses rx ts a) = Inr res"
    unfolding then_filter_Inr by auto
  show "then_do (filter_expenses rx ts a df) (filter_expenses rx ts b) = Inr res
        \<longleftrightarrow> usable rx ts a \<and> usable rx ts b
            \<and> res = filter (\<lambda>r. matches rx ts a r \<and> matches rx ts b r) df"
    by (rule then_filter_Inr)
qed

theorem C7_witness:
  "then_do (filter_expenses word_search iso_date crit_a sample_df)
      (filter_expenses word_search iso_date crit_b)
     = Inr [ts_row 4 30 ''Food'' (2024, 3, 2) ''lunch out'']
   \<and> then_do (filter_expenses word_search iso_date crit_b sample_df)
      (filter_expenses word_search iso_date crit_a)
     = Inr [ts_row 4 30 ''Food'' (2024, 3, 2) ''lunch out'']
   \<and> then_do (filter_expenses word_search iso_date crit_a sample_df)
      (filter_expenses word_search iso_date crit_a)
     = filter_expenses word_search iso_date crit_a sample_df"
proof -
  have d: "iso_date ''2024-01-10'' = Some (2024, 1, 10)"
    by (simp add: iso_date_def digit_of_def days_in_month_def)
  have u: "usable word_search iso_date crit_a" "usable word_search iso_date crit_b"
    by (simp_all add: usable_def crit_a_def crit_b_def no_criteria_def truthy_def d
        word_search_def)
  have f: "[ts_row 4 30 ''Food'' (2024, 3, 2) ''lunch out'']
      = filter (\<lambda>r. matches word_search iso_date crit_a r \<and> matches word_search iso_date crit_b r)
          sample_df"
    by (simp add: matches_def date_test_def crit_a_def crit_b_def no_criteria_def truthy_def d
        word_search_def sample_df_def ts_row_def ordinal_def contains_ci_def ascii_lower_def)
  from C7_filter_idempotent_commutative [of word_search iso_date crit_a sample_df crit_b
      "[ts_row 4 30 ''Food'' (2024, 3, 2) ''lunch out'']"] u f
  show ?thesis
    by blast
qed


section \<open>Period aggregator: properties\<close>



text \<open>The periods of the chart are in ascending order, each once.\<close>

lemma groupby_sum_keys:
  "sorted (map fst (groupby_sum key val xs)) \<and> distinct (map fst (groupby_sum key val xs))"
  by (simp add: groupby_sum_def comp_def)

text \<open>
  The first of January 2024 was a Monday: it starts a week, in which the following Sunday
  lies and the Sunday before does not.
\<close>

lemma to_period_week_2024:
  "to_period ''W'' (2024, 1, 1) = to_period ''W'' (2024, 1, 7)
   \<and> to_period ''W'' (2023, 12, 31) + 1 = to_period ''W'' (2024, 1, 1)
   \<and> to_period ''W'' (2024, 1, 8) = to_period ''W'' (2024, 1, 1) + 1
   \<and> ordinal (1970, 1, 1) = 0"
  by (simp add: to_period_def ordinal_def)










text \<open>
  The doubles that Python reads from \<^verbatim>\<open>0.1\<close>, \<^verbatim>\<open>0.2\<close>, \<^verbatim>\<open>0.3\<close>, \<^verbatim>\<open>0.4\<close> and \<^verbatim>\<open>0.6\<close>, and the
  sums of \<^verbatim>\<open>0.3\<close>, \<^verbatim>\<open>0.2\<close>, \<^verbatim>\<open>0.1\<close> as \<^verbatim>\<open>np.sum\<close> and the groups of January and February
  compute them.
\<close>

lemma decimal_doubles:
  "rnd (1 / 10) = 3602879701896397 / 2 ^ 55"
  "rnd (1 / 5) = 3602879701896397 / 2 ^ 54"
  "rnd (3 / 10) = 5404319552844595 / 2 ^ 54"
  "rnd (2 / 5) = 3602879701896397 / 2 ^ 53"
  "rnd (3 / 5) = 5404319552844595 / 2 ^ 53"
  by (simp_all add: rnd_eval [where k = "- 4"] rnd_eval [where k = "- 3"]
      rnd_eval [where k = "- 2"] rnd_eval [where k = "- 1"] pow2_def rne_def)





end
